theory Spec2Isabelle
  imports Main "HOL-Library.Multiset"
begin

section \<open>The content store of the story site\<close>

text \<open>
  The read layer of the site (\<^verbatim>\<open>file_service\<close>: \<^verbatim>\<open>getStories\<close>,
  \<^verbatim>\<open>getStoryByFolderName\<close>, \<^verbatim>\<open>getChaptersForStory\<close>, \<^verbatim>\<open>getChapterDetails\<close>,
  \<^verbatim>\<open>readChapterContent\<close>) and the two route handlers of \<^verbatim>\<open>app.js\<close> that the
  properties below are about, as functions over an explicit file system.

  An \<^verbatim>\<open>async\<close> function returns a promise; the model returns what the promise
  settles to: \<open>Inr v\<close> when it is fulfilled with \<open>v\<close>, \<open>Inl e\<close> when it is rejected
  with the error \<open>e\<close>. Output on the console is not modelled.
\<close>

subsection \<open>Errors, promises and \<^verbatim>\<open>try\<close>/\<^verbatim>\<open>catch\<close>\<close>

text \<open>
  The errors of the \<^verbatim>\<open>fs\<close> module carry a \<^verbatim>\<open>code\<close> property (\<^verbatim>\<open>'ENOENT'\<close>,
  \<^verbatim>\<open>'EACCES'\<close>, \<^verbatim>\<open>'EISDIR'\<close>, ...); the \<^verbatim>\<open>SyntaxError\<close> of \<^verbatim>\<open>JSON.parse\<close> has none,
  so that \<^verbatim>\<open>error.code\<close> is \<^verbatim>\<open>undefined\<close> there.
\<close>

datatype js_error = SystemError string | SyntaxError

fun code :: "js_error \<Rightarrow> string option" where
  "code (SystemError c) = Some c"
| "code SyntaxError = None"

text \<open>\<^verbatim>\<open>const v = await p; k(v)\<close>: a rejected \<open>p\<close> is thrown at the \<^verbatim>\<open>await\<close>.\<close>

definition await :: "js_error + 'a \<Rightarrow> ('a \<Rightarrow> js_error + 'b) \<Rightarrow> js_error + 'b" where
  "await p k = (case p of Inl error \<Rightarrow> Inl error | Inr v \<Rightarrow> k v)"

text \<open>\<^verbatim>\<open>try { body } catch (error) { handler }\<close>.\<close>

definition try_catch :: "js_error + 'a \<Rightarrow> (js_error \<Rightarrow> js_error + 'a) \<Rightarrow> js_error + 'a" where
  "try_catch body handler = (case body of Inl error \<Rightarrow> handler error | Inr v \<Rightarrow> Inr v)"

text \<open>
  \<^verbatim>\<open>Promise.all\<close> is fulfilled with the values, in the order of the array, when every
  promise is fulfilled, and is rejected with the reason of the promise that is rejected
  first in time otherwise. Which one that is depends on how the pending reads are
  scheduled; the model takes it as the parameter \<open>race\<close>: the position, among the
  rejected promises in array order, of the one that settles first.
\<close>

fun rejections :: "(js_error + 'a) list \<Rightarrow> js_error list" where
  "rejections [] = []"
| "rejections (Inl e # ps) = e # rejections ps"
| "rejections (Inr v # ps) = rejections ps"

fun fulfilments :: "(js_error + 'a) list \<Rightarrow> 'a list" where
  "fulfilments [] = []"
| "fulfilments (Inl e # ps) = fulfilments ps"
| "fulfilments (Inr v # ps) = v # fulfilments ps"

definition Promise_all :: "nat \<Rightarrow> (js_error + 'a) list \<Rightarrow> js_error + 'a list" where
  "Promise_all race ps =
     (case rejections ps of
        [] \<Rightarrow> Inr (fulfilments ps)
      | e # es \<Rightarrow> Inl ((e # es) ! (race mod length (e # es))))"

subsection \<open>Numbers and \<^verbatim>\<open>Array.prototype.sort\<close>\<close>

text \<open>
  The chapter numbers that the application writes are integers; it can also produce
  \<^verbatim>\<open>Infinity\<close> (from \<^verbatim>\<open>parseInt\<close>) and store \<^verbatim>\<open>null\<close> (what \<^verbatim>\<open>JSON.stringify\<close>
  writes for a number that is not finite). \<open>Finite n\<close> is the JavaScript number of
  integer value \<open>n\<close>. \<^verbatim>\<open>NaN\<close> is not a value of the type: where an operation can
  produce it, its result is an option and \<open>None\<close> is \<^verbatim>\<open>NaN\<close>.
\<close>

datatype number = Finite int | PosInfinity | NegInfinity

text \<open>
  What the field \<^verbatim>\<open>chapter_number\<close> of a parsed metadata file can hold, since nothing
  checks the file: a number; \<^verbatim>\<open>null\<close>; nothing at all, the field being missing
  (\<^verbatim>\<open>undefined\<close>); or any other value (a boolean, a string, an array, an object). The
  code only subtracts such values and compares them with a number by \<^verbatim>\<open>===\<close>. A value
  of the last kind is never \<^verbatim>\<open>===\<close> to a number, and it is given here by what
  \<^verbatim>\<open>ToNumber\<close> makes of it: \<open>Other None\<close> is a value that is not numeric, such as
  the string \<^verbatim>\<open>"three"\<close>.
\<close>

datatype js_value = Number number | Null | Undefined | Other "number option"

text \<open>\<^verbatim>\<open>ToNumber\<close>, applied by the operator \<^verbatim>\<open>-\<close> to its operands.\<close>

fun ToNumber :: "js_value \<Rightarrow> number option" where
  "ToNumber (Number n) = Some n"
| "ToNumber Null = Some (Finite 0)"
| "ToNumber Undefined = None"
| "ToNumber (Other v) = v"

text \<open>
  \<^verbatim>\<open>x - y\<close> on numbers. The difference of two finite numbers has the sign of the exact
  difference (it is zero only when they are equal), and only its sign is used below.
\<close>

fun subtract :: "number \<Rightarrow> number \<Rightarrow> number option" where
  "subtract (Finite a) (Finite b) = Some (Finite (a - b))"
| "subtract (Finite a) PosInfinity = Some NegInfinity"
| "subtract (Finite a) NegInfinity = Some PosInfinity"
| "subtract PosInfinity PosInfinity = None"
| "subtract PosInfinity y = Some PosInfinity"
| "subtract NegInfinity NegInfinity = None"
| "subtract NegInfinity y = Some NegInfinity"

text \<open>\<^verbatim>\<open>x - y\<close> on values: \<^verbatim>\<open>NaN\<close> as soon as one of the two is not numeric.\<close>

definition minus_values :: "js_value \<Rightarrow> js_value \<Rightarrow> number option" where
  "minus_values x y =
     (case ToNumber x of
        None \<Rightarrow> None
      | Some a \<Rightarrow> (case ToNumber y of None \<Rightarrow> None | Some b \<Rightarrow> subtract a b))"

text \<open>
  \<^verbatim>\<open>SortCompare\<close> of the language specification with a comparator: a result that is
  \<^verbatim>\<open>NaN\<close> counts as \<^verbatim>\<open>+0\<close>.
\<close>

definition SortCompare :: "('a \<Rightarrow> 'a \<Rightarrow> number option) \<Rightarrow> 'a \<Rightarrow> 'a \<Rightarrow> number" where
  "SortCompare comparefn x y = (case comparefn x y of None \<Rightarrow> Finite 0 | Some v \<Rightarrow> v)"

fun positive :: "number \<Rightarrow> bool" where
  "positive (Finite n) = (0 < n)"
| "positive PosInfinity = True"
| "positive NegInfinity = False"

text \<open>
  \<^verbatim>\<open>array.sort(comparefn)\<close> is a stable sort: an element is moved behind another one
  only when the comparator puts it after. For a comparator that is a consistent
  ordering the result is determined by that, whatever the algorithm of the engine; the
  model is the stable insertion sort. A comparator that answers \<^verbatim>\<open>NaN\<close> for some
  pairs is not a consistent ordering, and the language leaves the order to the engine
  then; the model keeps the insertion sort, in which a result \<^verbatim>\<open>NaN\<close> counts as
  \<^verbatim>\<open>+0\<close> and moves nothing.
\<close>

fun insert_sorted :: "('a \<Rightarrow> 'a \<Rightarrow> number option) \<Rightarrow> 'a \<Rightarrow> 'a list \<Rightarrow> 'a list" where
  "insert_sorted comparefn x [] = [x]"
| "insert_sorted comparefn x (y # ys) =
     (if positive (SortCompare comparefn x y) then y # insert_sorted comparefn x ys
      else x # y # ys)"

fun Array_sort :: "('a \<Rightarrow> 'a \<Rightarrow> number option) \<Rightarrow> 'a list \<Rightarrow> 'a list" where
  "Array_sort comparefn [] = []"
| "Array_sort comparefn (x # xs) = insert_sorted comparefn x (Array_sort comparefn xs)"

text \<open>The order of the numbers, \<^verbatim>\<open>-Infinity\<close> first and \<^verbatim>\<open>Infinity\<close> last.\<close>

fun number_le :: "number \<Rightarrow> number \<Rightarrow> bool" where
  "number_le NegInfinity y = True"
| "number_le x PosInfinity = True"
| "number_le (Finite a) (Finite b) = (a \<le> b)"
| "number_le x y = False"

text \<open>
  Two values in ascending order: it is not the case that both are numeric and the first
  is the greater.
\<close>

definition ascending :: "js_value \<Rightarrow> js_value \<Rightarrow> bool" where
  "ascending x y =
     (case ToNumber x of
        None \<Rightarrow> True
      | Some a \<Rightarrow> (case ToNumber y of None \<Rightarrow> True | Some b \<Rightarrow> number_le a b))"

text \<open>
  The number value of a natural number: the nearest number with a significand of 53
  bits, ties to the even significand, and \<^verbatim>\<open>Infinity\<close> when that is \<open>2 ^ 1024\<close> or
  more.
\<close>

fun bit_length :: "nat \<Rightarrow> nat" where
  "bit_length n = (if n = 0 then 0 else Suc (bit_length (n div 2)))"

declare bit_length.simps [simp del]

definition round_to_53_bits :: "nat \<Rightarrow> nat" where
  "round_to_53_bits n =
     (let e = bit_length n - 53;
          q = n div 2 ^ e;
          r = n mod 2 ^ e
      in if 2 * r > 2 ^ e \<or> (2 * r = 2 ^ e \<and> odd q) then (q + 1) * 2 ^ e else q * 2 ^ e)"

definition Number_value :: "nat \<Rightarrow> number" where
  "Number_value n =
     (if 2 ^ 1024 \<le> round_to_53_bits n then PosInfinity else Finite (int (round_to_53_bits n)))"

fun negate :: "number \<Rightarrow> number" where
  "negate (Finite n) = Finite (- n)"
| "negate PosInfinity = NegInfinity"
| "negate NegInfinity = PosInfinity"

subsection \<open>Strings and arrays\<close>

text \<open>
  A string is a list of code units; the type \<^typ>\<open>char\<close> has those below 256.
  \<^verbatim>\<open>s.endsWith(search)\<close>:
\<close>

definition endsWith :: "string \<Rightarrow> string \<Rightarrow> bool" where
  "endsWith search s =
     (length search \<le> length s \<and> drop (length s - length search) s = search)"

text \<open>\<^verbatim>\<open>s.replace(pattern, replacement)\<close> with a string pattern: the first occurrence.\<close>

fun replace :: "string \<Rightarrow> string \<Rightarrow> string \<Rightarrow> string" where
  "replace pattern replacement [] = (if pattern = [] then replacement else [])"
| "replace pattern replacement (c # cs) =
     (if take (length pattern) (c # cs) = pattern
      then replacement @ drop (length pattern) (c # cs)
      else c # replace pattern replacement cs)"

text \<open>\<^verbatim>\<open>s.replace(/\\/g, '/')\<close>: every backslash becomes a slash.\<close>

definition replace_backslashes :: "string \<Rightarrow> string" where
  "replace_backslashes s = map (\<lambda>c. if c = CHR 0x5C then CHR ''/'' else c) s"

definition is_digit :: "char \<Rightarrow> bool" where
  "is_digit c = (48 \<le> (of_char c :: nat) \<and> (of_char c :: nat) \<le> 57)"

definition digit_value :: "char \<Rightarrow> nat" where
  "digit_value c = of_char c - 48"

text \<open>The white space that \<^verbatim>\<open>parseInt\<close> skips, among the code units below 256.\<close>

definition StrWhiteSpaceChar :: "char \<Rightarrow> bool" where
  "StrWhiteSpaceChar c = ((of_char c :: nat) \<in> {9, 10, 11, 12, 13, 32, 160})"

definition digits_value :: "string \<Rightarrow> nat" where
  "digits_value Z = foldl (\<lambda>n c. 10 * n + digit_value c) 0 Z"

text \<open>
  \<^verbatim>\<open>parseInt(string, 10)\<close>: white space is skipped, a sign is read, then the longest
  run of decimal digits; \<open>None\<close> is the \<^verbatim>\<open>NaN\<close> of a string with no digit there.
\<close>

definition parseInt :: "string \<Rightarrow> number option" where
  "parseInt string =
     (let S = dropWhile StrWhiteSpaceChar string;
          negative = (S \<noteq> [] \<and> hd S = CHR ''-'');
          S = (if S \<noteq> [] \<and> (hd S = CHR ''+'' \<or> hd S = CHR ''-'') then tl S else S);
          Z = takeWhile is_digit S
      in if Z = [] then None
         else let number = Number_value (digits_value Z)
              in Some (if negative then negate number else number))"

text \<open>\<^verbatim>\<open>x <= 0\<close> on a number.\<close>

fun not_positive :: "number \<Rightarrow> bool" where
  "not_positive (Finite n) = (n \<le> 0)"
| "not_positive PosInfinity = False"
| "not_positive NegInfinity = True"

text \<open>\<^verbatim>\<open>/^\d{4,}\.html$/.test(s)\<close>: four decimal digits or more, then \<^verbatim>\<open>.html\<close>.\<close>

definition fileNameRegex_test :: "string \<Rightarrow> bool" where
  "fileNameRegex_test s =
     (let digits = take (length s - 5) s
      in endsWith ''.html'' s \<and> 4 \<le> length digits \<and> list_all is_digit digits)"

subsection \<open>The data model\<close>

record story =
  story_id :: string
  story_title :: string
  folder_name :: string
  description :: string

record "chapter" =
  title :: string
  chapter_number :: js_value
  original_file_name :: string
  content_path :: string

subsection \<open>The platform and the file system\<close>

text \<open>
  What the code takes from Node: \<^verbatim>\<open>__dirname\<close>, \<^verbatim>\<open>path.join\<close> (whose result depends on
  the platform) and the JSON codec. \<^verbatim>\<open>JSON.parse\<close> is taken at the two types at which
  the code reads: the text of the catalog denotes an array of story records, the text of
  a chapter metadata file one chapter record, whose \<^verbatim>\<open>chapter_number\<close> may hold any
  value or be missing; \<open>None\<close> is a text that \<^verbatim>\<open>JSON.parse\<close> refuses. Well-formed
  texts that are not an object with the string fields are outside the model.
\<close>

record runtime =
  dirname :: string
  path_join :: "string list \<Rightarrow> string"
  parse_stories :: "string \<Rightarrow> story list option"
  parse_chapter :: "string \<Rightarrow> chapter option"
  stringify_chapter :: "chapter \<Rightarrow> string"

definition JSON_parse :: "(string \<Rightarrow> 'a option) \<Rightarrow> string \<Rightarrow> js_error + 'a" where
  "JSON_parse reader text = (case reader text of None \<Rightarrow> Inl SyntaxError | Some v \<Rightarrow> Inr v)"

text \<open>
  \<^verbatim>\<open>JSON.stringify\<close> writes \<^verbatim>\<open>null\<close> for a number that is not finite and leaves out
  a field that is \<^verbatim>\<open>undefined\<close>; the text of a record without such a number is given
  by the platform (\<^const>\<open>stringify_chapter\<close>).
\<close>

fun SerializeJSONNumber :: "js_value \<Rightarrow> js_value" where
  "SerializeJSONNumber (Number (Finite n)) = Number (Finite n)"
| "SerializeJSONNumber (Number PosInfinity) = Null"
| "SerializeJSONNumber (Number NegInfinity) = Null"
| "SerializeJSONNumber Null = Null"
| "SerializeJSONNumber Undefined = Undefined"
| "SerializeJSONNumber (Other v) = Other v"

definition serialized :: "chapter \<Rightarrow> chapter" where
  "serialized c = c\<lparr>chapter_number := SerializeJSONNumber (chapter_number c)\<rparr>"

definition JSON_stringify :: "(chapter \<Rightarrow> string) \<Rightarrow> chapter \<Rightarrow> string" where
  "JSON_stringify writer c = writer (serialized c)"

text \<open>
  The file system, as the results of the calls of the \<^verbatim>\<open>fs\<close> module at every path:
  for \<^verbatim>\<open>fs.readdir(p)\<close> the names of the directory in the order in which the listing
  presents them, for \<^verbatim>\<open>fs.readFile(p, 'utf-8')\<close> the text of the file, for
  \<^verbatim>\<open>fs.access(p)\<close>, \<^verbatim>\<open>fs.mkdir(p, {recursive: true})\<close> and \<^verbatim>\<open>fs.writeFile(p, data)\<close>
  nothing; or the error of the call.
\<close>

record filesystem =
  readdir :: "string \<Rightarrow> js_error + string list"
  readFile :: "string \<Rightarrow> js_error + string"
  access :: "string \<Rightarrow> js_error + unit"
  mkdir :: "string \<Rightarrow> js_error + unit"
  writeFile :: "string \<Rightarrow> string \<Rightarrow> js_error + unit"

subsection \<open>\<^verbatim>\<open>file_service\<close>\<close>

definition DATA_DIR :: "runtime \<Rightarrow> string" where
  "DATA_DIR rt = path_join rt [dirname rt, ''data'']"

definition STORIES_FILE :: "runtime \<Rightarrow> string" where
  "STORIES_FILE rt = path_join rt [DATA_DIR rt, ''stories.json'']"

definition CHAPTERS_METADATA_DIR :: "runtime \<Rightarrow> string" where
  "CHAPTERS_METADATA_DIR rt = path_join rt [DATA_DIR rt, ''chapters'']"

definition getStories :: "runtime \<Rightarrow> filesystem \<Rightarrow> js_error + story list" where
  "getStories rt fs =
     try_catch
       (await (readFile fs (STORIES_FILE rt)) (\<lambda>fileContent.
        await (JSON_parse (parse_stories rt) fileContent) (\<lambda>stories.
        Inr stories)))
       (\<lambda>error. Inl error)"

text \<open>\<^verbatim>\<open>stories.find(...)\<close> is \<^const>\<open>find\<close>; \<open>None\<close> is \<^verbatim>\<open>undefined\<close>.\<close>

definition getStoryByFolderName :: "runtime \<Rightarrow> filesystem \<Rightarrow> string \<Rightarrow> js_error + story option" where
  "getStoryByFolderName rt fs folderName =
     try_catch
       (await (getStories rt fs) (\<lambda>stories.
        let story = find (\<lambda>s. folder_name s = folderName) stories in
        Inr story))
       (\<lambda>error. Inl error)"

definition getChaptersForStory :: "runtime \<Rightarrow> nat \<Rightarrow> filesystem \<Rightarrow> string \<Rightarrow> js_error + chapter list" where
  "getChaptersForStory rt race fs folderName =
     (let storyChaptersDir = path_join rt [CHAPTERS_METADATA_DIR rt, folderName] in
      try_catch
        (await (readdir fs storyChaptersDir) (\<lambda>files.
         let jsonFiles = filter (endsWith ''.json'') files in
         if length jsonFiles = 0 then Inr []
         else
           let chapterPromises = map (\<lambda>jsonFile.
                 let filePath = path_join rt [storyChaptersDir, jsonFile] in
                 await (readFile fs filePath) (\<lambda>fileContent.
                 JSON_parse (parse_chapter rt) fileContent)) jsonFiles in
           await (Promise_all race chapterPromises) (\<lambda>chapters.
           Inr (Array_sort
                  (\<lambda>a b. minus_values (chapter_number a) (chapter_number b))
                  chapters))))
        (\<lambda>error. if code error = Some ''ENOENT'' then Inr [] else Inl error))"

definition getChapterDetails :: "runtime \<Rightarrow> filesystem \<Rightarrow> string \<Rightarrow> string \<Rightarrow> js_error + chapter option" where
  "getChapterDetails rt fs storyFolderName chapterFileNameWithoutExt =
     (let chapterJsonFile = chapterFileNameWithoutExt @ ''.json'';
          chapterPath = path_join rt [CHAPTERS_METADATA_DIR rt, storyFolderName, chapterJsonFile] in
      try_catch
        (await (readFile fs chapterPath) (\<lambda>fileContent.
         await (JSON_parse (parse_chapter rt) fileContent) (\<lambda>chapterDetails.
         Inr (Some chapterDetails))))
        (\<lambda>error. if code error = Some ''ENOENT'' then Inr None else Inl error))"

definition readChapterContent :: "runtime \<Rightarrow> filesystem \<Rightarrow> string \<Rightarrow> js_error + string" where
  "readChapterContent rt fs contentPath =
     (let absoluteContentPath = path_join rt [dirname rt, contentPath] in
      try_catch
        (await (readFile fs absoluteContentPath) (\<lambda>htmlContent.
         Inr htmlContent))
        (\<lambda>error. if code error = Some ''ENOENT'' then Inl error else Inl error))"

subsection \<open>The chapter page of \<^verbatim>\<open>app.js\<close>\<close>

text \<open>\<^verbatim>\<open>array.findIndex(p)\<close>: the first position whose element satisfies \<open>p\<close>, or \<open>-1\<close>.\<close>

fun findIndex :: "('a \<Rightarrow> bool) \<Rightarrow> 'a list \<Rightarrow> int" where
  "findIndex p [] = - 1"
| "findIndex p (x # xs) =
     (if p x then 0 else (let i = findIndex p xs in if i = - 1 then - 1 else i + 1))"

text \<open>\<^verbatim>\<open>array[i]\<close>; \<open>None\<close> is the \<^verbatim>\<open>undefined\<close> of a position outside the array.\<close>

definition element_at :: "'a list \<Rightarrow> int \<Rightarrow> 'a option" where
  "element_at xs i = (if 0 \<le> i \<and> i < int (length xs) then Some (xs ! nat i) else None)"

text \<open>
  The resolution of the adjacent chapters in the handler of
  \<^verbatim>\<open>GET /stories/:folder_name/chapters/:chapter_filename_root\<close>; \<open>None\<close> is the
  \<^verbatim>\<open>null\<close> the two variables start with.
\<close>

definition adjacent_chapters :: "chapter list \<Rightarrow> chapter \<Rightarrow> chapter option \<times> chapter option" where
  "adjacent_chapters allChapters chapterMetadata =
     (let currentChapterIndex = findIndex
            (\<lambda>chap. original_file_name chap = original_file_name chapterMetadata) allChapters;
          previousChapter = (if currentChapterIndex > 0
            then element_at allChapters (currentChapterIndex - 1) else None);
          nextChapter = (if currentChapterIndex < int (length allChapters) - 1
            then element_at allChapters (currentChapterIndex + 1) else None)
      in (previousChapter, nextChapter))"

text \<open>The handler itself, with the three pages it renders (status 404, 200 and 500).\<close>

datatype chapter_page =
  Chapter_Not_Found
  | Chapter_Detail "chapter" string "chapter option" "chapter option"
  | Chapter_Error

definition chapter_route :: "runtime \<Rightarrow> nat \<Rightarrow> filesystem \<Rightarrow> string \<Rightarrow> string \<Rightarrow> chapter_page" where
  "chapter_route rt race fs folder chapter_filename_root =
     (case
        await (getChapterDetails rt fs folder chapter_filename_root) (\<lambda>found.
        case found of
          None \<Rightarrow> Inr Chapter_Not_Found
        | Some chapterMetadata \<Rightarrow>
            await (readChapterContent rt fs (content_path chapterMetadata)) (\<lambda>chapterContent.
            await (getChaptersForStory rt race fs folder) (\<lambda>allChapters.
            let (previousChapter, nextChapter) = adjacent_chapters allChapters chapterMetadata in
            Inr (Chapter_Detail chapterMetadata chapterContent previousChapter nextChapter))))
      of Inr page \<Rightarrow> page
       | Inl error \<Rightarrow> Chapter_Error)"

subsection \<open>The creation of a chapter in \<^verbatim>\<open>app.js\<close>\<close>

text \<open>
  The handler of \<^verbatim>\<open>POST /admin/stories/:story_folder_name/chapters\<close>. The fields of
  the form are strings; a field that is missing is the empty string here, both being
  refused by the same test. The handler answers with one of four pages, and it leaves
  behind the directories it has made and the files it has written, in that order.
\<close>

record chapter_form =
  form_title :: string
  form_chapter_number :: string
  form_original_file_name :: string
  form_content :: string

datatype form_error =
  Fields_Required
  | Number_Not_Positive
  | File_Name_Malformed
  | Number_Exists
  | File_Name_Exists
  | Content_File_Exists

datatype create_page =
  Story_Not_Found
  | Form_Again form_error
  | Redirect string
  | Creation_Error

datatype effect = Made_Directory string | Written_File string string

type_synonym 'a handler = "(js_error + 'a) \<times> effect list"

text \<open>Awaiting a call that reads, makes a directory, writes a file.\<close>

definition await_read :: "js_error + 'a \<Rightarrow> ('a \<Rightarrow> 'b handler) \<Rightarrow> 'b handler" where
  "await_read p k = (case p of Inl error \<Rightarrow> (Inl error, []) | Inr v \<Rightarrow> k v)"

definition await_mkdir :: "filesystem \<Rightarrow> string \<Rightarrow> 'b handler \<Rightarrow> 'b handler" where
  "await_mkdir fs p k =
     (case mkdir fs p of
        Inl error \<Rightarrow> (Inl error, [])
      | Inr u \<Rightarrow> (fst k, Made_Directory p # snd k))"

definition await_writeFile :: "filesystem \<Rightarrow> string \<Rightarrow> string \<Rightarrow> 'b handler \<Rightarrow> 'b handler" where
  "await_writeFile fs p data k =
     (case writeFile fs p data of
        Inl error \<Rightarrow> (Inl error, [])
      | Inr u \<Rightarrow> (fst k, Written_File p data # snd k))"

definition new_chapterMetadata :: "runtime \<Rightarrow> string \<Rightarrow> string \<Rightarrow> number \<Rightarrow> string \<Rightarrow> chapter" where
  "new_chapterMetadata rt story_folder_name title' numChapterNumber original_file_name' =
     \<lparr>title = title',
      chapter_number = Number numChapterNumber,
      original_file_name = original_file_name',
      content_path = replace_backslashes (path_join rt [story_folder_name, original_file_name'])\<rparr>"

definition createChapter ::
  "runtime \<Rightarrow> nat \<Rightarrow> filesystem \<Rightarrow> string \<Rightarrow> chapter_form \<Rightarrow> create_page \<times> effect list" where
  "createChapter rt race fs story_folder_name body =
     (let title' = form_title body;
          chapter_number' = form_chapter_number body;
          original_file_name' = form_original_file_name body;
          content = form_content body;
          attempt =
            await_read (getStoryByFolderName rt fs story_folder_name) (\<lambda>story.
            if story = None then (Inr Story_Not_Found, [])
            else if title' = [] \<or> chapter_number' = [] \<or> original_file_name' = [] \<or> content = []
              then (Inr (Form_Again Fields_Required), [])
            else
              case parseInt chapter_number' of
                None \<Rightarrow> (Inr (Form_Again Number_Not_Positive), [])
              | Some numChapterNumber \<Rightarrow>
            if not_positive numChapterNumber then (Inr (Form_Again Number_Not_Positive), [])
            else if \<not> fileNameRegex_test original_file_name'
              then (Inr (Form_Again File_Name_Malformed), [])
            else
              await_read (getChaptersForStory rt race fs story_folder_name) (\<lambda>existingChapters.
              if list_ex (\<lambda>chap. chapter_number chap = Number numChapterNumber) existingChapters
                then (Inr (Form_Again Number_Exists), [])
              else if list_ex (\<lambda>chap. original_file_name chap = original_file_name') existingChapters
                then (Inr (Form_Again File_Name_Exists), [])
              else
                let contentFilePath = path_join rt [dirname rt, story_folder_name, original_file_name']
                in case access fs contentFilePath of
                  Inr u \<Rightarrow> (Inr (Form_Again Content_File_Exists), [])
                | Inl e \<Rightarrow>
              if code e \<noteq> Some ''ENOENT'' then (Inl e, [])
              else
                let storyContentDir = path_join rt [dirname rt, story_folder_name] in
                await_mkdir fs storyContentDir (
                await_writeFile fs contentFilePath content (
                let metadataFileName = replace ''.html'' ''.json'' original_file_name';
                    metadataDirPath = path_join rt [dirname rt, ''data'', ''chapters'', story_folder_name]
                in
                await_mkdir fs metadataDirPath (
                let metadataFilePath = path_join rt [metadataDirPath, metadataFileName];
                    chapterMetadata = new_chapterMetadata rt story_folder_name title'
                      numChapterNumber original_file_name'
                in
                await_writeFile fs metadataFilePath
                  (JSON_stringify (stringify_chapter rt) chapterMetadata) (
                (Inr (Redirect (''/admin/stories/'' @ story_folder_name @ ''/chapters'')), [])))))))
      in case attempt of
           (Inr page, effects) \<Rightarrow> (page, effects)
         | (Inl error, effects) \<Rightarrow> (Creation_Error, effects))"

section \<open>A sample store\<close>

text \<open>
  A POSIX \<^verbatim>\<open>path.join\<close> on arguments that are plain names or normalised paths: the
  arguments that are not empty, separated by \<^verbatim>\<open>/\<close>.
\<close>

fun intercalate :: "string list \<Rightarrow> string" where
  "intercalate [] = []"
| "intercalate [x] = x"
| "intercalate (x # y # ys) = x @ ''/'' @ intercalate (y # ys)"

definition join_names :: "string list \<Rightarrow> string" where
  "join_names args = intercalate (filter (\<lambda>a. a \<noteq> []) args)"

definition chapter_one :: "chapter" where
  "chapter_one = \<lparr>title = ''One'', chapter_number = Number (Finite 1),
     original_file_name = ''0001.html'', content_path = ''tale/0001.html''\<rparr>"

definition chapter_two :: "chapter" where
  "chapter_two = \<lparr>title = ''Two'', chapter_number = Number (Finite 2),
     original_file_name = ''0002.html'', content_path = ''tale/0002.html''\<rparr>"

definition chapter_three :: "chapter" where
  "chapter_three = \<lparr>title = ''Three'', chapter_number = Number (Finite 3),
     original_file_name = ''0003.html'', content_path = ''tale/0003.html''\<rparr>"

definition chapter_five :: "chapter" where
  "chapter_five = \<lparr>title = ''Five'', chapter_number = Number (Finite 5),
     original_file_name = ''0005.html'', content_path = ''tale/0005.html''\<rparr>"

text \<open>A chapter whose number is \<^verbatim>\<open>Infinity\<close>, and the same with \<^verbatim>\<open>null\<close>.\<close>

definition chapter_nine :: "chapter" where
  "chapter_nine = \<lparr>title = ''Nine'', chapter_number = Number PosInfinity,
     original_file_name = ''0009.html'', content_path = ''tale/0009.html''\<rparr>"

definition chapter_nine_null :: "chapter" where
  "chapter_nine_null = \<lparr>title = ''Nine'', chapter_number = Null,
     original_file_name = ''0009.html'', content_path = ''tale/0009.html''\<rparr>"

text \<open>
  The chapters of the story \<^verbatim>\<open>mixed\<close>: the metadata file of the second one has no
  \<^verbatim>\<open>chapter_number\<close>.
\<close>

definition mixed_first :: "chapter" where
  "mixed_first = \<lparr>title = ''Alpha'', chapter_number = Number (Finite 3),
     original_file_name = ''0001.html'', content_path = ''mixed/0001.html''\<rparr>"

definition mixed_second :: "chapter" where
  "mixed_second = \<lparr>title = ''Beta'', chapter_number = Undefined,
     original_file_name = ''0002.html'', content_path = ''mixed/0002.html''\<rparr>"

definition mixed_third :: "chapter" where
  "mixed_third = \<lparr>title = ''Gamma'', chapter_number = Number (Finite 1),
     original_file_name = ''0003.html'', content_path = ''mixed/0003.html''\<rparr>"

definition tale :: story where
  "tale = \<lparr>story_id = ''tale'', story_title = ''A tale'', folder_name = ''tale'',
     description = []\<rparr>"

definition saga :: story where
  "saga = \<lparr>story_id = ''saga'', story_title = ''A saga'', folder_name = ''saga'',
     description = ''long''\<rparr>"

definition saga_again :: story where
  "saga_again = \<lparr>story_id = ''saga'', story_title = ''Another saga'', folder_name = ''saga'',
     description = []\<rparr>"

text \<open>The JSON texts of the sample store, each on one line.\<close>

definition text_stories :: string where
  \<open>text_stories = ''[{"id": "tale", "title": "A tale", "folder_name": "tale", "description": ""}, {"id": "saga", "title": "A saga", "folder_name": "saga", "description": "long"}, {"id": "saga", "title": "Another saga", "folder_name": "saga", "description": ""}]''\<close>

definition text_one :: string where
  \<open>text_one = ''{"title": "One", "chapter_number": 1, "original_file_name": "0001.html", "content_path": "tale/0001.html"}''\<close>

definition text_two :: string where
  \<open>text_two = ''{"title": "Two", "chapter_number": 2, "original_file_name": "0002.html", "content_path": "tale/0002.html"}''\<close>

definition text_three :: string where
  \<open>text_three = ''{"title": "Three", "chapter_number": 3, "original_file_name": "0003.html", "content_path": "tale/0003.html"}''\<close>

definition text_five :: string where
  \<open>text_five = ''{"title": "Five", "chapter_number": 5, "original_file_name": "0005.html", "content_path": "tale/0005.html"}''\<close>

definition text_nine_null :: string where
  \<open>text_nine_null = ''{"title": "Nine", "chapter_number": null, "original_file_name": "0009.html", "content_path": "tale/0009.html"}''\<close>

definition text_mixed_first :: string where
  \<open>text_mixed_first = ''{"title": "Alpha", "chapter_number": 3, "original_file_name": "0001.html", "content_path": "mixed/0001.html"}''\<close>

definition text_mixed_second :: string where
  \<open>text_mixed_second = ''{"title": "Beta", "original_file_name": "0002.html", "content_path": "mixed/0002.html"}''\<close>

definition text_mixed_third :: string where
  \<open>text_mixed_third = ''{"title": "Gamma", "chapter_number": 1, "original_file_name": "0003.html", "content_path": "mixed/0003.html"}''\<close>

definition text_malformed :: string where
  \<open>text_malformed = ''{"title": "Two", "chapter_num''\<close>

text \<open>
  The sample platform. Its parser and its writer know the texts and the records above;
  the parser refuses every other text, the malformed one among them.
\<close>

definition sample_stringify :: "chapter \<Rightarrow> string" where
  "sample_stringify c =
     (if c = chapter_one then text_one
      else if c = chapter_two then text_two
      else if c = chapter_three then text_three
      else if c = chapter_five then text_five
      else if c = chapter_nine_null then text_nine_null
      else ''null'')"

definition sample_runtime :: runtime where
  "sample_runtime = \<lparr>dirname = ''/srv'', path_join = join_names,
     parse_stories = map_of [(text_stories, [tale, saga, saga_again])],
     parse_chapter = map_of [(text_one, chapter_one), (text_two, chapter_two),
       (text_three, chapter_three), (text_five, chapter_five),
       (text_nine_null, chapter_nine_null), (text_mixed_first, mixed_first),
       (text_mixed_second, mixed_second), (text_mixed_third, mixed_third)],
     stringify_chapter = sample_stringify\<rparr>"

text \<open>
  The sample store. The chapters of the story \<^verbatim>\<open>tale\<close> are listed out of order and
  next to a file that is not a metadata file; \<^verbatim>\<open>saga\<close> has no chapter directory;
  the directory of \<^verbatim>\<open>empty\<close> holds no metadata file; that of \<^verbatim>\<open>locked\<close> cannot be
  read; in \<^verbatim>\<open>torn\<close> the second metadata file is malformed; in \<^verbatim>\<open>draft\<close> the
  first name listed is a link to a file that is gone and the second file is malformed;
  the three metadata files of \<^verbatim>\<open>mixed\<close> are listed in the order of their names.
  Every directory can be made and every file can be written.
\<close>

definition sample_files :: "string \<Rightarrow> js_error + string" where
  "sample_files p =
     (if p = ''/srv/data/stories.json'' then Inr text_stories
      else if p = ''/srv/data/chapters/tale/0001.json'' then Inr text_one
      else if p = ''/srv/data/chapters/tale/0002.json'' then Inr text_two
      else if p = ''/srv/data/chapters/tale/0005.json'' then Inr text_five
      else if p = ''/srv/data/chapters/tale/notes.txt'' then Inr ''to do''
      else if p = ''/srv/data/chapters/empty/notes.txt'' then Inr ''to do''
      else if p = ''/srv/data/chapters/locked/0001.json'' then Inl (SystemError ''EACCES'')
      else if p = ''/srv/data/chapters/torn/0001.json'' then Inr text_one
      else if p = ''/srv/data/chapters/torn/0002.json'' then Inr text_malformed
      else if p = ''/srv/data/chapters/draft/0002.json'' then Inr text_malformed
      else if p = ''/srv/data/chapters/mixed/0001.json'' then Inr text_mixed_first
      else if p = ''/srv/data/chapters/mixed/0002.json'' then Inr text_mixed_second
      else if p = ''/srv/data/chapters/mixed/0003.json'' then Inr text_mixed_third
      else if p = ''/srv/tale/0001.html'' then Inr ''<p>Once</p>''
      else if p = ''/srv/tale/0002.html'' then Inr ''<p>Twice</p>''
      else if p = ''/srv/tale/0005.html'' then Inr ''<p>Five times</p>''
      else if p = ''/srv/tale/locked.html'' then Inl (SystemError ''EACCES'')
      else Inl (SystemError ''ENOENT''))"

definition sample_fs :: filesystem where
  "sample_fs = \<lparr>
     readdir = (\<lambda>p.
       if p = ''/srv/data/chapters/tale''
         then Inr [''0005.json'', ''notes.txt'', ''0001.json'', ''0002.json'']
       else if p = ''/srv/data/chapters/empty'' then Inr [''notes.txt'']
       else if p = ''/srv/data/chapters/locked'' then Inl (SystemError ''EACCES'')
       else if p = ''/srv/data/chapters/torn'' then Inr [''0001.json'', ''0002.json'']
       else if p = ''/srv/data/chapters/draft'' then Inr [''0001.json'', ''0002.json'']
       else if p = ''/srv/data/chapters/mixed''
         then Inr [''0001.json'', ''0002.json'', ''0003.json'']
       else Inl (SystemError ''ENOENT'')),
     readFile = sample_files,
     access = (\<lambda>p. case sample_files p of Inr text \<Rightarrow> Inr () | Inl e \<Rightarrow> Inl e),
     mkdir = (\<lambda>p. Inr ()),
     writeFile = (\<lambda>p data. Inr ())\<rparr>"

text \<open>The same store after the file \<^verbatim>\<open>notes.txt\<close> of \<^verbatim>\<open>tale\<close> has been removed.\<close>

definition sample_fs_without_notes :: filesystem where
  "sample_fs_without_notes = sample_fs\<lparr>
     readdir := (readdir sample_fs)
       (''/srv/data/chapters/tale'' := Inr [''0005.json'', ''0001.json'', ''0002.json'']),
     readFile := (readFile sample_fs)
       (''/srv/data/chapters/tale/notes.txt'' := Inl (SystemError ''ENOENT''))\<rparr>"

text \<open>
  Two forms for a new chapter of \<^verbatim>\<open>tale\<close>: chapter 3, and a chapter whose number is
  written with 310 digits.
\<close>

definition form_three :: chapter_form where
  "form_three = \<lparr>form_title = ''Three'', form_chapter_number = ''3'',
     form_original_file_name = ''0003.html'', form_content = ''<p>Thrice</p>''\<rparr>"

definition form_nine :: chapter_form where
  "form_nine = \<lparr>form_title = ''Nine'', form_chapter_number = CHR ''1'' # replicate 309 (CHR ''0''),
     form_original_file_name = ''0009.html'', form_content = ''<p>Ninth</p>''\<rparr>"

text \<open>The store in which the file at \<open>p\<close> holds \<open>data\<close>.\<close>

definition holding :: "filesystem \<Rightarrow> string \<Rightarrow> string \<Rightarrow> filesystem" where
  "holding fs p data = fs\<lparr>readFile := (readFile fs)(p := Inr data)\<rparr>"

section \<open>Properties\<close>

subsection \<open>Promises and handlers\<close>

lemma await_Inr: "await (Inr v) k = k v"
  by (simp add: await_def)

lemma await_Inl: "await (Inl e) k = Inl e"
  by (simp add: await_def)

subsection \<open>The sort\<close>

lemma not_positive_subtract:
  "(\<not> positive (SortCompare (\<lambda>a b. subtract (k a) (k b)) x y)) = number_le (k x) (k y)"
  by (cases "k x"; cases "k y") (auto simp: SortCompare_def)

lemma number_le_trans: "number_le a b \<Longrightarrow> number_le b c \<Longrightarrow> number_le a c"
  by (cases a; cases b; cases c) auto

lemma number_le_total: "number_le a b \<or> number_le b a"
  by (cases a; cases b) auto

lemma mset_insert_sorted: "mset (insert_sorted comparefn x xs) = add_mset x (mset xs)"
  by (induction xs) auto

lemma mset_Array_sort: "mset (Array_sort comparefn xs) = mset xs"
  by (induction xs) (auto simp: mset_insert_sorted)

lemma set_insert_sorted: "set (insert_sorted comparefn x xs) = insert x (set xs)"
  by (induction xs) auto

lemma sorted_wrt_insert_sorted:
  assumes "sorted_wrt (\<lambda>a b. number_le (k a) (k b)) xs"
  shows "sorted_wrt (\<lambda>a b. number_le (k a) (k b))
           (insert_sorted (\<lambda>a b. subtract (k a) (k b)) x xs)"
  using assms
proof (induction xs)
  case Nil
  then show ?case by simp
next
  case (Cons y ys)
  show ?case
  proof (cases "positive (SortCompare (\<lambda>a b. subtract (k a) (k b)) x y)")
    case True
    then have "\<not> number_le (k x) (k y)"
      using not_positive_subtract [of k x y] by simp
    then have yx: "number_le (k y) (k x)"
      using number_le_total [of "k x" "k y"] by simp
    from Cons show ?thesis
      using True yx by (auto simp: set_insert_sorted)
  next
    case False
    then have xy: "number_le (k x) (k y)"
      using not_positive_subtract [of k x y] by simp
    have "\<forall>z\<in>set ys. number_le (k x) (k z)"
      using Cons.prems xy by (auto intro: number_le_trans)
    with Cons.prems xy False show ?thesis by simp
  qed
qed

lemma sorted_wrt_Array_sort:
  "sorted_wrt (\<lambda>a b. number_le (k a) (k b)) (Array_sort (\<lambda>a b. subtract (k a) (k b)) xs)"
  by (induction xs) (auto intro: sorted_wrt_insert_sorted)

text \<open>The sort depends on the comparator only at the elements of the array.\<close>

lemma set_Array_sort: "set (Array_sort comparefn xs) = set xs"
  using mset_Array_sort [of comparefn xs] by (metis set_mset_mset)

lemma insert_sorted_cong:
  assumes "\<And>y. y \<in> set ys \<Longrightarrow> c x y = c' x y"
  shows "insert_sorted c x ys = insert_sorted c' x ys"
  using assms by (induction ys) (auto simp: SortCompare_def)

lemma Array_sort_cong:
  assumes "\<And>x y. x \<in> set xs \<Longrightarrow> y \<in> set xs \<Longrightarrow> c x y = c' x y"
  shows "Array_sort c xs = Array_sort c' xs"
  using assms
proof (induction xs)
  case Nil
  then show ?case by simp
next
  case (Cons x xs)
  have "Array_sort c xs = Array_sort c' xs"
    using Cons.prems by (intro Cons.IH) auto
  moreover have "insert_sorted c x (Array_sort c' xs) = insert_sorted c' x (Array_sort c' xs)"
    using Cons.prems by (intro insert_sorted_cong) (auto simp: set_Array_sort)
  ultimately show ?case by simp
qed

text \<open>
  When the values compared are all numeric, the comparator \<^verbatim>\<open>a.f - b.f\<close> is a
  consistent ordering and the array comes out in ascending order.
\<close>

lemma sorted_wrt_Array_sort_numeric:
  assumes numeric: "\<And>x. x \<in> set xs \<Longrightarrow> ToNumber (f x) \<noteq> None"
  shows "sorted_wrt (\<lambda>a b. ascending (f a) (f b))
           (Array_sort (\<lambda>a b. minus_values (f a) (f b)) xs)"
proof -
  define k where "k = (\<lambda>a. the (ToNumber (f a)))"
  have "minus_values (f x) (f y) = subtract (k x) (k y)" if "x \<in> set xs" "y \<in> set xs" for x y
    using numeric [OF that(1)] numeric [OF that(2)] by (auto simp: minus_values_def k_def)
  then have "Array_sort (\<lambda>a b. minus_values (f a) (f b)) xs
      = Array_sort (\<lambda>a b. subtract (k a) (k b)) xs"
    by (intro Array_sort_cong) auto
  moreover have "sorted_wrt (\<lambda>a b. number_le (k a) (k b))
      (Array_sort (\<lambda>a b. subtract (k a) (k b)) xs)"
    by (rule sorted_wrt_Array_sort)
  moreover have "ascending (f a) (f b)" if "number_le (k a) (k b)" for a b
    using that by (auto simp: ascending_def k_def split: option.splits)
  ultimately show ?thesis
    by (auto intro: sorted_wrt_mono_rel [rotated])
qed

subsection \<open>Promises\<close>

lemma Promise_all_fulfilled:
  "rejections ps = [] \<Longrightarrow> Promise_all race ps = Inr (fulfilments ps)"
  by (simp add: Promise_all_def)

lemma rejections_map_Inr: "rejections (map (\<lambda>x. Inr (f x)) xs) = []"
  by (induction xs) auto

lemma fulfilments_map_Inr: "fulfilments (map (\<lambda>x. Inr (f x)) xs) = map f xs"
  by (induction xs) auto

lemma set_rejections: "set (rejections ps) = {e. Inl e \<in> set ps}"
  by (induction ps rule: rejections.induct) auto

lemma Promise_all_rejected:
  assumes "Inl e \<in> set ps"
  shows "\<exists>error. Promise_all race ps = Inl error \<and> Inl error \<in> set ps"
proof -
  from assms have "rejections ps \<noteq> []"
    using set_rejections [of ps] by auto
  then obtain r rs where rs: "rejections ps = r # rs"
    by (cases "rejections ps") auto
  have "(r # rs) ! (race mod length (r # rs)) \<in> set (r # rs)"
    by (rule nth_mem) simp
  then have "Inl ((r # rs) ! (race mod length (r # rs))) \<in> set ps"
    using set_rejections [of ps] rs by auto
  then show ?thesis
    by (simp add: Promise_all_def rs)
qed

subsection \<open>The sample store\<close>

lemmas text_defs = text_stories_def text_one_def text_two_def text_three_def text_five_def
  text_nine_null_def text_malformed_def text_mixed_first_def text_mixed_second_def
  text_mixed_third_def

lemma sample_parse_chapter:
  "parse_chapter sample_runtime text_one = Some chapter_one"
  "parse_chapter sample_runtime text_two = Some chapter_two"
  "parse_chapter sample_runtime text_three = Some chapter_three"
  "parse_chapter sample_runtime text_five = Some chapter_five"
  "parse_chapter sample_runtime text_nine_null = Some chapter_nine_null"
  "parse_chapter sample_runtime text_mixed_first = Some mixed_first"
  "parse_chapter sample_runtime text_mixed_second = Some mixed_second"
  "parse_chapter sample_runtime text_mixed_third = Some mixed_third"
  "parse_chapter sample_runtime text_malformed = None"
  "parse_chapter sample_runtime ''to do'' = None"
  by (simp_all add: sample_runtime_def text_defs)

lemma sample_parse_stories:
  "parse_stories sample_runtime text_stories = Some [tale, saga, saga_again]"
  by (simp add: sample_runtime_def)

lemma sample_platform:
  "dirname sample_runtime = ''/srv''"
  "path_join sample_runtime = join_names"
  "stringify_chapter sample_runtime = sample_stringify"
  by (simp_all add: sample_runtime_def)

lemmas sample_defs = sample_fs_def sample_files_def sample_parse_chapter sample_parse_stories
  sample_platform CHAPTERS_METADATA_DIR_def DATA_DIR_def STORIES_FILE_def join_names_def
  endsWith_def

lemmas service_defs = getChaptersForStory_def getChapterDetails_def getStories_def
  getStoryByFolderName_def readChapterContent_def await_def try_catch_def Promise_all_def
  JSON_parse_def SortCompare_def minus_values_def Let_def

lemmas chapter_defs = chapter_one_def chapter_two_def chapter_three_def chapter_five_def
  chapter_nine_def chapter_nine_null_def

lemmas mixed_defs = mixed_first_def mixed_second_def mixed_third_def

lemma code_ENOENT: "code (SystemError ''ENOENT'') = Some ''ENOENT''"
  by simp

subsection \<open>The claims about \<^verbatim>\<open>file_service\<close>\<close>

text \<open>
  C1, as amended. When the chapter directory of the story exists, every metadata file in
  it (every listed name that ends in \<^verbatim>\<open>.json\<close>) is read and parsed, and the
  \<^verbatim>\<open>chapter_number\<close> of every record is numeric (a number or \<^verbatim>\<open>null\<close>, or another
  value that \<^verbatim>\<open>ToNumber\<close> does not turn into \<^verbatim>\<open>NaN\<close>; not a missing field), then the
  call is fulfilled, and the array it returns is sorted ascending by \<^verbatim>\<open>chapter_number\<close>
  (read as a number, the way the comparator reads it). This holds for every order
  \<open>files\<close> in which the listing presents the names; the array holds exactly the records
  of the metadata files.
\<close>

theorem getChaptersForStory_sorted:
  assumes dir: "readdir fs (path_join rt [CHAPTERS_METADATA_DIR rt, folderName]) = Inr files"
    and parse: "\<And>name. name \<in> set files \<Longrightarrow> endsWith ''.json'' name \<Longrightarrow>
      \<exists>text. readFile fs (path_join rt [path_join rt [CHAPTERS_METADATA_DIR rt, folderName], name])
          = Inr text
        \<and> parse_chapter rt text = Some (record_of name)"
    and numeric: "\<And>name. name \<in> set files \<Longrightarrow> endsWith ''.json'' name \<Longrightarrow>
      ToNumber (chapter_number (record_of name)) \<noteq> None"
  shows "\<exists>chapters. getChaptersForStory rt race fs folderName = Inr chapters
    \<and> sorted_wrt (\<lambda>a b. ascending (chapter_number a) (chapter_number b)) chapters
    \<and> (\<forall>c \<in> set chapters. ToNumber (chapter_number c) \<noteq> None)
    \<and> mset chapters = image_mset record_of (mset (filter (endsWith ''.json'') files))"
proof -
  let ?dir = "path_join rt [CHAPTERS_METADATA_DIR rt, folderName]"
  let ?json = "filter (endsWith ''.json'') files"
  let ?promise = "\<lambda>jsonFile. await (readFile fs (path_join rt [?dir, jsonFile]))
                     (\<lambda>fileContent. JSON_parse (parse_chapter rt) fileContent)"
  let ?cmp = "\<lambda>a b. minus_values (chapter_number a) (chapter_number b)"
  have each: "?promise name = Inr (record_of name)" if "name \<in> set ?json" for name
    using parse [of name] that by (auto simp: await_def JSON_parse_def)
  then have all: "map ?promise ?json = map (\<lambda>name. Inr (record_of name)) ?json"
    by (intro map_cong) auto
  have result: "getChaptersForStory rt race fs folderName
      = Inr (Array_sort ?cmp (map record_of ?json))"
  proof (cases "?json = []")
    case True
    with dir show ?thesis
      by (simp add: getChaptersForStory_def await_def try_catch_def)
  next
    case False
    have "Promise_all race (map ?promise ?json) = Inr (map record_of ?json)"
      unfolding all by (simp add: Promise_all_fulfilled rejections_map_Inr fulfilments_map_Inr)
    with dir False show ?thesis
      by (simp add: getChaptersForStory_def await_def try_catch_def Let_def)
  qed
  have numbers: "ToNumber (chapter_number c) \<noteq> None" if "c \<in> set (map record_of ?json)" for c
    using that numeric by auto
  have "sorted_wrt (\<lambda>a b. ascending (chapter_number a) (chapter_number b))
      (Array_sort ?cmp (map record_of ?json))"
    using numbers by (intro sorted_wrt_Array_sort_numeric) auto
  moreover have "\<forall>c \<in> set (Array_sort ?cmp (map record_of ?json)).
      ToNumber (chapter_number c) \<noteq> None"
    using numbers by (simp add: set_Array_sort)
  ultimately show ?thesis
    unfolding result by (simp add: mset_Array_sort)
qed

theorem getChaptersForStory_sorted_witness:
  "readdir sample_fs (path_join sample_runtime [CHAPTERS_METADATA_DIR sample_runtime, ''tale''])
     = Inr [''0005.json'', ''notes.txt'', ''0001.json'', ''0002.json'']
   \<and> getChaptersForStory sample_runtime 0 sample_fs ''tale''
     = Inr [chapter_one, chapter_two, chapter_five]
   \<and> sorted_wrt (\<lambda>a b. ascending (chapter_number a) (chapter_number b))
         [chapter_one, chapter_two, chapter_five]"
proof -
  let ?files = "[''0005.json'', ''notes.txt'', ''0001.json'', ''0002.json'']"
  let ?record_of = "\<lambda>name. if name = ''0001.json'' then chapter_one
                     else if name = ''0002.json'' then chapter_two else chapter_five"
  have dir: "readdir sample_fs (path_join sample_runtime [CHAPTERS_METADATA_DIR sample_runtime, ''tale''])
     = Inr ?files"
    by (simp add: sample_defs)
  have parse: "\<exists>text. readFile sample_fs (path_join sample_runtime
           [path_join sample_runtime [CHAPTERS_METADATA_DIR sample_runtime, ''tale''], name]) = Inr text
        \<and> parse_chapter sample_runtime text = Some (?record_of name)"
    if "name \<in> set ?files" "endsWith ''.json'' name" for name
    using that by (auto simp: sample_defs)
  have numeric: "ToNumber (chapter_number (?record_of name)) \<noteq> None"
    if "name \<in> set ?files" "endsWith ''.json'' name" for name
    by (simp add: chapter_defs)
  have run: "getChaptersForStory sample_runtime 0 sample_fs ''tale''
      = Inr [chapter_one, chapter_two, chapter_five]"
    by (simp add: service_defs sample_defs chapter_defs)
  from getChaptersForStory_sorted [of sample_fs sample_runtime "''tale''" ?files ?record_of 0,
      OF dir parse numeric]
  obtain chapters where "getChaptersForStory sample_runtime 0 sample_fs ''tale'' = Inr chapters"
    and "sorted_wrt (\<lambda>a b. ascending (chapter_number a) (chapter_number b)) chapters"
    by blast
  with run dir show ?thesis by simp
qed

text \<open>
  The claim as it was stated, for all metadata files that parse, does not hold. The
  three metadata files of the story \<^verbatim>\<open>mixed\<close> all parse; the second one has no
  \<^verbatim>\<open>chapter_number\<close>, so that every comparison with its record is \<^verbatim>\<open>NaN\<close> and the
  sort moves nothing: the chapter numbered 3 is returned before the chapter numbered 1.
\<close>

theorem getChaptersForStory_unsorted:
  "readdir sample_fs (path_join sample_runtime [CHAPTERS_METADATA_DIR sample_runtime, ''mixed''])
     = Inr [''0001.json'', ''0002.json'', ''0003.json'']
   \<and> map (\<lambda>name. await
          (readFile sample_fs (path_join sample_runtime
             [path_join sample_runtime [CHAPTERS_METADATA_DIR sample_runtime, ''mixed''], name]))
          (JSON_parse (parse_chapter sample_runtime)))
        [''0001.json'', ''0002.json'', ''0003.json'']
     = [Inr mixed_first, Inr mixed_second, Inr mixed_third]
   \<and> chapter_number mixed_first = Number (Finite 3)
   \<and> chapter_number mixed_second = Undefined
   \<and> chapter_number mixed_third = Number (Finite 1)
   \<and> getChaptersForStory sample_runtime 0 sample_fs ''mixed''
     = Inr [mixed_first, mixed_second, mixed_third]
   \<and> \<not> sorted_wrt (\<lambda>a b. ascending (chapter_number a) (chapter_number b))
         [mixed_first, mixed_second, mixed_third]"
  by (simp add: service_defs sample_defs mixed_defs ascending_def)

text \<open>
  C2. When the chapter directory of the story is absent, that is, when reading the
  directory fails with the code \<^verbatim>\<open>ENOENT\<close>, \<^verbatim>\<open>getChaptersForStory\<close> is fulfilled with
  the empty array: the error is not propagated.
\<close>

theorem getChaptersForStory_absent_directory:
  assumes "readdir fs (path_join rt [CHAPTERS_METADATA_DIR rt, folderName]) = Inl error"
    and "code error = Some ''ENOENT''"
  shows "getChaptersForStory rt race fs folderName = Inr []"
  using assms by (simp add: getChaptersForStory_def await_def try_catch_def)

theorem getChaptersForStory_absent_directory_witness:
  "readdir sample_fs (path_join sample_runtime [CHAPTERS_METADATA_DIR sample_runtime, ''saga''])
     = Inl (SystemError ''ENOENT'')
   \<and> code (SystemError ''ENOENT'') = Some ''ENOENT''
   \<and> getChaptersForStory sample_runtime 0 sample_fs ''saga'' = Inr []"
proof -
  have dir: "readdir sample_fs (path_join sample_runtime [CHAPTERS_METADATA_DIR sample_runtime, ''saga''])
     = Inl (SystemError ''ENOENT'')"
    by (simp add: sample_defs)
  have c: "code (SystemError ''ENOENT'') = Some ''ENOENT''"
    by simp
  from getChaptersForStory_absent_directory [OF dir c, of 0] dir c show ?thesis
    by simp
qed

text \<open>
  C3. \<^verbatim>\<open>readChapterContent\<close> rejects with the error of the read, unchanged. A missing
  file is therefore reported by an error whose code is \<^verbatim>\<open>ENOENT\<close>, any other
  failure of the read by an error with another code, and the two outcomes are different
  values for the caller.
\<close>

theorem readChapterContent_not_found_distinct:
  assumes "readFile fs (path_join rt [dirname rt, contentPath]) = Inl missing"
    and "code missing = Some ''ENOENT''"
    and "readFile fs' (path_join rt [dirname rt, contentPath']) = Inl other"
    and "code other \<noteq> Some ''ENOENT''"
  shows "readChapterContent rt fs contentPath = Inl missing
    \<and> readChapterContent rt fs' contentPath' = Inl other
    \<and> readChapterContent rt fs contentPath \<noteq> readChapterContent rt fs' contentPath'"
  using assms by (auto simp: readChapterContent_def await_def try_catch_def)

theorem readChapterContent_not_found_distinct_witness:
  "readChapterContent sample_runtime sample_fs ''tale/0009.html'' = Inl (SystemError ''ENOENT'')
   \<and> readChapterContent sample_runtime sample_fs ''tale/locked.html'' = Inl (SystemError ''EACCES'')
   \<and> readChapterContent sample_runtime sample_fs ''tale/0009.html''
       \<noteq> readChapterContent sample_runtime sample_fs ''tale/locked.html''"
proof -
  have a: "readFile sample_fs (path_join sample_runtime [dirname sample_runtime, ''tale/0009.html''])
      = Inl (SystemError ''ENOENT'')"
    by (simp add: sample_defs)
  have b: "code (SystemError ''ENOENT'') = Some ''ENOENT''" by simp
  have c: "readFile sample_fs (path_join sample_runtime [dirname sample_runtime, ''tale/locked.html''])
      = Inl (SystemError ''EACCES'')"
    by (simp add: sample_defs)
  have d: "code (SystemError ''EACCES'') \<noteq> Some ''ENOENT''" by simp
  show ?thesis
    by (rule readChapterContent_not_found_distinct [OF a b c d])
qed

text \<open>
  C5. With \<open>chapterPath\<close> the path of the metadata file
  \<^verbatim>\<open>data/chapters/X/K.json\<close>: \<^verbatim>\<open>getChapterDetails\<close> is fulfilled with \<^verbatim>\<open>undefined\<close>
  exactly when reading the file fails with the code \<^verbatim>\<open>ENOENT\<close>; it is fulfilled with
  the parsed record when the file is read and parsed; it is rejected with the error of
  the read when that has any other code, and with the error of the parser when the text
  is refused.
\<close>

theorem getChapterDetails_outcomes:
  fixes rt fs storyFolderName chapterKey
  defines "chapterPath \<equiv>
    path_join rt [CHAPTERS_METADATA_DIR rt, storyFolderName, chapterKey @ ''.json'']"
  shows "(getChapterDetails rt fs storyFolderName chapterKey = Inr None
           \<longleftrightarrow> (\<exists>error. readFile fs chapterPath = Inl error \<and> code error = Some ''ENOENT''))
    \<and> (\<forall>text record. readFile fs chapterPath = Inr text \<and> parse_chapter rt text = Some record
           \<longrightarrow> getChapterDetails rt fs storyFolderName chapterKey = Inr (Some record))
    \<and> (\<forall>error. readFile fs chapterPath = Inl error \<and> code error \<noteq> Some ''ENOENT''
           \<longrightarrow> getChapterDetails rt fs storyFolderName chapterKey = Inl error)
    \<and> (\<forall>text. readFile fs chapterPath = Inr text \<and> parse_chapter rt text = None
           \<longrightarrow> getChapterDetails rt fs storyFolderName chapterKey = Inl SyntaxError)"
  unfolding chapterPath_def
  by (auto simp: getChapterDetails_def await_def try_catch_def JSON_parse_def Let_def
      split: sum.splits option.splits)

theorem getChapterDetails_outcomes_witness:
  "getChapterDetails sample_runtime sample_fs ''tale'' ''0009'' = Inr None
   \<and> getChapterDetails sample_runtime sample_fs ''tale'' ''0001'' = Inr (Some chapter_one)
   \<and> getChapterDetails sample_runtime sample_fs ''locked'' ''0001'' = Inl (SystemError ''EACCES'')
   \<and> getChapterDetails sample_runtime sample_fs ''torn'' ''0002'' = Inl SyntaxError"
proof -
  have missing: "readFile sample_fs (path_join sample_runtime
      [CHAPTERS_METADATA_DIR sample_runtime, ''tale'', ''0009'' @ ''.json''])
      = Inl (SystemError ''ENOENT'')
    \<and> code (SystemError ''ENOENT'') = Some ''ENOENT''"
    by (simp add: sample_defs)
  have present: "readFile sample_fs (path_join sample_runtime
      [CHAPTERS_METADATA_DIR sample_runtime, ''tale'', ''0001'' @ ''.json'']) = Inr text_one
    \<and> parse_chapter sample_runtime text_one = Some chapter_one"
    by (simp add: sample_defs)
  have denied: "readFile sample_fs (path_join sample_runtime
      [CHAPTERS_METADATA_DIR sample_runtime, ''locked'', ''0001'' @ ''.json''])
      = Inl (SystemError ''EACCES'')
    \<and> code (SystemError ''EACCES'') \<noteq> Some ''ENOENT''"
    by (simp add: sample_defs)
  have malformed: "readFile sample_fs (path_join sample_runtime
      [CHAPTERS_METADATA_DIR sample_runtime, ''torn'', ''0002'' @ ''.json'']) = Inr text_malformed
    \<and> parse_chapter sample_runtime text_malformed = None"
    by (simp add: sample_defs)
  have "getChapterDetails sample_runtime sample_fs ''tale'' ''0009'' = Inr None"
    using getChapterDetails_outcomes [of sample_runtime sample_fs "''tale''" "''0009''"] missing
    by blast
  moreover have "getChapterDetails sample_runtime sample_fs ''tale'' ''0001'' = Inr (Some chapter_one)"
    using getChapterDetails_outcomes [of sample_runtime sample_fs "''tale''" "''0001''"] present
    by blast
  moreover have "getChapterDetails sample_runtime sample_fs ''locked'' ''0001''
      = Inl (SystemError ''EACCES'')"
    using getChapterDetails_outcomes [of sample_runtime sample_fs "''locked''" "''0001''"] denied
    by blast
  moreover have "getChapterDetails sample_runtime sample_fs ''torn'' ''0002'' = Inl SyntaxError"
    using getChapterDetails_outcomes [of sample_runtime sample_fs "''torn''" "''0002''"] malformed
    by blast
  ultimately show ?thesis by simp
qed

text \<open>
  C6. The call does not always fail when a metadata file fails to parse. In the story
  \<^verbatim>\<open>draft\<close> of the sample store the directory exists and lists two metadata files; the
  second one is malformed, the first one cannot be opened (code \<^verbatim>\<open>ENOENT\<close>). When
  the rejection of the first read reaches \<^verbatim>\<open>Promise.all\<close> first, the \<^verbatim>\<open>catch\<close> block
  takes it for an absent directory and the call is fulfilled with the empty array; the
  syntax error is lost. Only when the rejection of the malformed file comes first does
  the call fail with it.
\<close>

theorem getChaptersForStory_parse_error_lost:
  "readdir sample_fs (path_join sample_runtime [CHAPTERS_METADATA_DIR sample_runtime, ''draft''])
     = Inr [''0001.json'', ''0002.json'']
   \<and> await (readFile sample_fs ''/srv/data/chapters/draft/0002.json'')
        (JSON_parse (parse_chapter sample_runtime)) = Inl SyntaxError
   \<and> getChaptersForStory sample_runtime 0 sample_fs ''draft'' = Inr []
   \<and> getChaptersForStory sample_runtime 1 sample_fs ''draft'' = Inl SyntaxError"
  by (simp add: service_defs sample_defs)

text \<open>
  What the code does guarantee: when a metadata file fails to parse and no read of a
  listed metadata file fails with the code \<^verbatim>\<open>ENOENT\<close>, the call is rejected, with
  the error of one of the files; with the syntax error when every file can be read.
\<close>

lemma getChaptersForStory_rejected:
  assumes dir: "readdir fs (path_join rt [CHAPTERS_METADATA_DIR rt, folderName]) = Inr files"
    and bad: "bad \<in> set files" "endsWith ''.json'' bad"
      "readFile fs (path_join rt [path_join rt [CHAPTERS_METADATA_DIR rt, folderName], bad]) = Inr text"
      "parse_chapter rt text = None"
    and present: "\<And>name e. name \<in> set files \<Longrightarrow> endsWith ''.json'' name \<Longrightarrow>
      readFile fs (path_join rt [path_join rt [CHAPTERS_METADATA_DIR rt, folderName], name]) = Inl e
      \<Longrightarrow> code e \<noteq> Some ''ENOENT''"
  shows "\<exists>error. getChaptersForStory rt race fs folderName = Inl error
    \<and> code error \<noteq> Some ''ENOENT''
    \<and> (error = SyntaxError \<or> (\<exists>name \<in> set files. endsWith ''.json'' name \<and>
          readFile fs (path_join rt [path_join rt [CHAPTERS_METADATA_DIR rt, folderName], name])
            = Inl error))"
proof -
  let ?dir = "path_join rt [CHAPTERS_METADATA_DIR rt, folderName]"
  let ?json = "filter (endsWith ''.json'') files"
  let ?promise = "\<lambda>jsonFile. await (readFile fs (path_join rt [?dir, jsonFile]))
                     (\<lambda>fileContent. JSON_parse (parse_chapter rt) fileContent)"
  have "?promise bad = Inl SyntaxError"
    using bad by (simp add: await_def JSON_parse_def)
  moreover have "bad \<in> set ?json"
    using bad by simp
  ultimately have "Inl SyntaxError \<in> set (map ?promise ?json)"
    by (metis (no_types, lifting) image_eqI set_map)
  from Promise_all_rejected [OF this, of race]
  obtain error where all: "Promise_all race (map ?promise ?json) = Inl error"
    and mem: "Inl error \<in> set (map ?promise ?json)"
    by blast
  from mem obtain name where name: "name \<in> set files" "endsWith ''.json'' name"
    and rejected: "?promise name = Inl error"
    by auto
  have cases: "error = SyntaxError
      \<or> readFile fs (path_join rt [?dir, name]) = Inl error"
    using rejected by (auto simp: await_def JSON_parse_def split: sum.splits option.splits)
  then have code: "code error \<noteq> Some ''ENOENT''"
    using present [OF name] by auto
  have nonempty: "?json \<noteq> []"
    using bad(1,2) by (auto simp: filter_empty_conv)
  have "getChaptersForStory rt race fs folderName = Inl error"
    using dir all code nonempty
    by (simp add: getChaptersForStory_def await_def try_catch_def Let_def)
  with code cases name show ?thesis by blast
qed

text \<open>
  C8. When the catalog file is read and its text is a well-formed array of story
  records, \<^verbatim>\<open>getStories\<close> is fulfilled with the array of the parser itself: the
  records in the order of the file, each with its \<^verbatim>\<open>id\<close>, \<^verbatim>\<open>title\<close>,
  \<^verbatim>\<open>folder_name\<close> and \<^verbatim>\<open>description\<close>.
\<close>

theorem getStories_file_order:
  assumes "readFile fs (STORIES_FILE rt) = Inr text"
    and "parse_stories rt text = Some stories"
  shows "getStories rt fs = Inr stories"
  using assms by (simp add: getStories_def await_def try_catch_def JSON_parse_def)

theorem getStories_file_order_witness:
  "readFile sample_fs (STORIES_FILE sample_runtime) = Inr text_stories
   \<and> parse_stories sample_runtime text_stories = Some [tale, saga, saga_again]
   \<and> getStories sample_runtime sample_fs = Inr [tale, saga, saga_again]"
proof -
  have r: "readFile sample_fs (STORIES_FILE sample_runtime) = Inr text_stories"
    by (simp add: sample_defs)
  have p: "parse_stories sample_runtime text_stories = Some [tale, saga, saga_again]"
    by (simp add: sample_defs)
  from getStories_file_order [OF r p] r p show ?thesis by simp
qed

text \<open>
  C9. \<^verbatim>\<open>getChaptersForStory\<close> looks only at the listed names that end in \<^verbatim>\<open>.json\<close>:
  a store that differs in the other names of the directory, and in the files behind
  them, gives the same result; and a directory that is read and lists no such name
  gives the empty array.
\<close>

theorem getChaptersForStory_only_json:
  assumes dir: "readdir fs (path_join rt [CHAPTERS_METADATA_DIR rt, folderName]) = Inr files"
  shows "(\<forall>fs' files'.
            readdir fs' (path_join rt [CHAPTERS_METADATA_DIR rt, folderName]) = Inr files'
          \<and> filter (endsWith ''.json'') files' = filter (endsWith ''.json'') files
          \<and> (\<forall>name \<in> set files. endsWith ''.json'' name \<longrightarrow>
                readFile fs' (path_join rt [path_join rt [CHAPTERS_METADATA_DIR rt, folderName], name])
                = readFile fs (path_join rt [path_join rt [CHAPTERS_METADATA_DIR rt, folderName], name]))
          \<longrightarrow> getChaptersForStory rt race fs' folderName = getChaptersForStory rt race fs folderName)
    \<and> (filter (endsWith ''.json'') files = []
          \<longrightarrow> getChaptersForStory rt race fs folderName = Inr [])"
proof (intro conjI allI impI)
  fix fs' :: filesystem and files' :: "string list"
  let ?dir = "path_join rt [CHAPTERS_METADATA_DIR rt, folderName]"
  let ?json = "filter (endsWith ''.json'') files"
  assume h: "readdir fs' ?dir = Inr files'
    \<and> filter (endsWith ''.json'') files' = ?json
    \<and> (\<forall>name \<in> set files. endsWith ''.json'' name \<longrightarrow>
          readFile fs' (path_join rt [?dir, name]) = readFile fs (path_join rt [?dir, name]))"
  have eq: "map (\<lambda>jsonFile. await (readFile fs' (path_join rt [?dir, jsonFile]))
            (\<lambda>fileContent. JSON_parse (parse_chapter rt) fileContent)) ?json
      = map (\<lambda>jsonFile. await (readFile fs (path_join rt [?dir, jsonFile]))
            (\<lambda>fileContent. JSON_parse (parse_chapter rt) fileContent)) ?json"
    using h by (intro map_cong) auto
  from dir h show "getChaptersForStory rt race fs' folderName = getChaptersForStory rt race fs folderName"
    by (simp add: getChaptersForStory_def await_Inr Let_def eq)
next
  assume "filter (endsWith ''.json'') files = []"
  with dir show "getChaptersForStory rt race fs folderName = Inr []"
    by (simp add: getChaptersForStory_def await_def try_catch_def)
qed

theorem getChaptersForStory_only_json_witness:
  "getChaptersForStory sample_runtime 0 sample_fs_without_notes ''tale''
     = getChaptersForStory sample_runtime 0 sample_fs ''tale''
   \<and> readdir sample_fs (path_join sample_runtime [CHAPTERS_METADATA_DIR sample_runtime, ''empty''])
     = Inr [''notes.txt'']
   \<and> getChaptersForStory sample_runtime 0 sample_fs ''empty'' = Inr []"
proof -
  let ?tale = "path_join sample_runtime [CHAPTERS_METADATA_DIR sample_runtime, ''tale'']"
  let ?files = "[''0005.json'', ''notes.txt'', ''0001.json'', ''0002.json'']"
  let ?files' = "[''0005.json'', ''0001.json'', ''0002.json'']"
  have dir: "readdir sample_fs ?tale = Inr ?files"
    by (simp add: sample_defs)
  have other: "readdir sample_fs_without_notes ?tale = Inr ?files'
    \<and> filter (endsWith ''.json'') ?files' = filter (endsWith ''.json'') ?files
    \<and> (\<forall>name \<in> set ?files. endsWith ''.json'' name \<longrightarrow>
          readFile sample_fs_without_notes (path_join sample_runtime [?tale, name])
          = readFile sample_fs (path_join sample_runtime [?tale, name]))"
    by (simp add: sample_fs_without_notes_def sample_defs)
  have same: "getChaptersForStory sample_runtime 0 sample_fs_without_notes ''tale''
     = getChaptersForStory sample_runtime 0 sample_fs ''tale''"
    using getChaptersForStory_only_json [OF dir, of 0] other by blast
  have empty: "readdir sample_fs
      (path_join sample_runtime [CHAPTERS_METADATA_DIR sample_runtime, ''empty'']) = Inr [''notes.txt'']"
    by (simp add: sample_defs)
  have none: "filter (endsWith ''.json'') [''notes.txt''] = []"
    by (simp add: endsWith_def)
  have "getChaptersForStory sample_runtime 0 sample_fs ''empty'' = Inr []"
    using getChaptersForStory_only_json [OF empty, of 0] none by blast
  with same empty show ?thesis by simp
qed

text \<open>
  C10. For every catalog file and every folder name: when the catalog cannot be read or
  parsed, \<^verbatim>\<open>getStoryByFolderName\<close> is rejected with that error; otherwise it is
  fulfilled, with \<^verbatim>\<open>undefined\<close> exactly when no entry of the catalog has the folder
  name, and with the entry \<open>s\<close> exactly when \<open>s\<close> is the first entry of the catalog
  that has it, whether or not later entries have it too.
\<close>

theorem getStoryByFolderName_first_match:
  "case getStories rt fs of
     Inl error \<Rightarrow> getStoryByFolderName rt fs folderName = Inl error
   | Inr stories \<Rightarrow>
       (getStoryByFolderName rt fs folderName = Inr None
          \<longleftrightarrow> (\<forall>s \<in> set stories. folder_name s \<noteq> folderName))
     \<and> (\<forall>s. getStoryByFolderName rt fs folderName = Inr (Some s)
          \<longleftrightarrow> (\<exists>i < length stories. stories ! i = s \<and> folder_name s = folderName
                \<and> (\<forall>j < i. folder_name (stories ! j) \<noteq> folderName)))
     \<and> (\<exists>found. getStoryByFolderName rt fs folderName = Inr found)"
  by (auto simp: getStoryByFolderName_def await_def try_catch_def Let_def find_None_iff
      find_Some_iff split: sum.splits)

theorem getStoryByFolderName_first_match_witness:
  "getStories sample_runtime sample_fs = Inr [tale, saga, saga_again]
   \<and> getStoryByFolderName sample_runtime sample_fs ''saga'' = Inr (Some saga)
   \<and> getStoryByFolderName sample_runtime sample_fs ''epic'' = Inr None"
proof -
  have catalog: "getStories sample_runtime sample_fs = Inr [tale, saga, saga_again]"
    by (simp add: service_defs sample_defs)
  have first: "\<exists>i < length [tale, saga, saga_again]. [tale, saga, saga_again] ! i = saga
      \<and> folder_name saga = ''saga''
      \<and> (\<forall>j < i. folder_name ([tale, saga, saga_again] ! j) \<noteq> ''saga'')"
    by (rule exI [of _ 1]) (simp add: tale_def saga_def)
  have none: "\<forall>s \<in> set [tale, saga, saga_again]. folder_name s \<noteq> ''epic''"
    by (simp add: tale_def saga_def saga_again_def)
  have "getStoryByFolderName sample_runtime sample_fs ''saga'' = Inr (Some saga)"
    using getStoryByFolderName_first_match [of sample_runtime sample_fs "''saga''"] first
    unfolding catalog by (simp only: sum.case)
  moreover have "getStoryByFolderName sample_runtime sample_fs ''epic'' = Inr None"
    using getStoryByFolderName_first_match [of sample_runtime sample_fs "''epic''"] none
    unfolding catalog by (simp only: sum.case)
  ultimately show ?thesis using catalog by simp
qed

subsection \<open>The claim about the chapter page\<close>

lemma findIndex_first:
  "i < length xs \<Longrightarrow> p (xs ! i) \<Longrightarrow> (\<And>j. j < i \<Longrightarrow> \<not> p (xs ! j)) \<Longrightarrow> findIndex p xs = int i"
proof (induction xs arbitrary: i)
  case Nil
  then show ?case by simp
next
  case (Cons x xs)
  show ?case
  proof (cases i)
    case 0
    with Cons.prems show ?thesis by simp
  next
    case (Suc k)
    have "\<not> p x" using Cons.prems(3) [of 0] Suc by simp
    moreover have "findIndex p xs = int k"
    proof (rule Cons.IH)
      show "k < length xs" using Cons.prems(1) Suc by simp
      show "p (xs ! k)" using Cons.prems(2) Suc by simp
      show "\<not> p (xs ! j)" if "j < k" for j
        using Cons.prems(3) [of "Suc j"] that Suc by simp
    qed
    ultimately show ?thesis using Suc by (simp add: Let_def)
  qed
qed

text \<open>In a list with distinct file names every chapter is found at its own position.\<close>

lemma findIndex_distinct:
  assumes "distinct (map f xs)" "i < length xs"
  shows "findIndex (\<lambda>x. f x = f (xs ! i)) xs = int i"
proof (rule findIndex_first)
  show "i < length xs" by fact
  show "f (xs ! i) = f (xs ! i)" by simp
  show "f (xs ! j) \<noteq> f (xs ! i)" if "j < i" for j
  proof -
    have "j < length (map f xs)" "i < length (map f xs)" "j \<noteq> i"
      using assms(2) that by simp_all
    with assms(1) have "map f xs ! j \<noteq> map f xs ! i"
      unfolding distinct_conv_nth by blast
    then show ?thesis using assms(2) that by simp
  qed
qed

text \<open>
  C4. When the chapter is found by its \<^verbatim>\<open>original_file_name\<close> at position \<open>i\<close> of the
  chapter list (no earlier element has that file name; in a list with distinct file
  names, as the data model has them, that is the position of the chapter itself), the
  previous chapter is the element at position \<open>i - 1\<close> (none when \<open>i = 0\<close>) and the next
  chapter is the element at position \<open>i + 1\<close> (none at the last position). The chapter
  numbers do not occur in the result: only the positions count, whatever the gaps in the
  numbering. For the chapters numbered 1, 2, 3 this gives 1 and 3 around 2, nothing
  before 1 and nothing after 3.
\<close>

theorem adjacent_chapters_by_position:
  assumes "i < length allChapters"
    and "original_file_name (allChapters ! i) = original_file_name chapterMetadata"
    and "\<And>j. j < i \<Longrightarrow>
      original_file_name (allChapters ! j) \<noteq> original_file_name chapterMetadata"
  shows "adjacent_chapters allChapters chapterMetadata =
    (if 0 < i then Some (allChapters ! (i - 1)) else None,
     if i + 1 < length allChapters then Some (allChapters ! (i + 1)) else None)"
proof -
  have idx: "findIndex (\<lambda>chap. original_file_name chap = original_file_name chapterMetadata)
      allChapters = int i"
    using assms by (intro findIndex_first) auto
  have prev: "0 < i \<Longrightarrow> nat (int i - 1) = i - 1" by simp
  have nxt: "nat (int i + 1) = i + 1" by simp
  show ?thesis
    unfolding adjacent_chapters_def idx Let_def element_at_def
    using assms(1) by (auto simp: prev nxt nat_diff_distrib)
qed

theorem adjacent_chapters_by_position_witness:
  "adjacent_chapters [chapter_one, chapter_two, chapter_three] chapter_two
     = (Some chapter_one, Some chapter_three)
   \<and> adjacent_chapters [chapter_one, chapter_two, chapter_three] chapter_one
     = (None, Some chapter_two)
   \<and> adjacent_chapters [chapter_one, chapter_two, chapter_three] chapter_three
     = (Some chapter_two, None)
   \<and> adjacent_chapters [chapter_one, chapter_two, chapter_five] chapter_two
     = (Some chapter_one, Some chapter_five)"
proof -
  let ?story = "[chapter_one, chapter_two, chapter_three]"
  let ?gap = "[chapter_one, chapter_two, chapter_five]"
  have one: "original_file_name (?story ! j) \<noteq> original_file_name chapter_one"
    if "j < 0" for j
    using that by simp
  have two: "original_file_name (?story ! j) \<noteq> original_file_name chapter_two"
    if "j < 1" for j
    using that by (simp add: chapter_defs)
  have three: "original_file_name (?story ! j) \<noteq> original_file_name chapter_three"
    if "j < 2" for j
    using that by (auto simp: chapter_defs nth_Cons' dest: less_2_cases)
  have gap: "original_file_name (?gap ! j) \<noteq> original_file_name chapter_two"
    if "j < 1" for j
    using that by (simp add: chapter_defs)
  show ?thesis
    using adjacent_chapters_by_position [of 0 ?story chapter_one, OF _ _ one]
      adjacent_chapters_by_position [of 1 ?story chapter_two, OF _ _ two]
      adjacent_chapters_by_position [of 2 ?story chapter_three, OF _ _ three]
      adjacent_chapters_by_position [of 1 ?gap chapter_two, OF _ _ gap]
    by simp
qed

text \<open>
  On the sample store the page of chapter 2 of \<^verbatim>\<open>tale\<close> links to the chapters 1 and
  5, its neighbours in the sorted list.
\<close>

lemma chapter_route_sample:
  "chapter_route sample_runtime 0 sample_fs ''tale'' ''0002''
     = Chapter_Detail chapter_two ''<p>Twice</p>'' (Some chapter_one) (Some chapter_five)"
  by (simp add: chapter_route_def adjacent_chapters_def element_at_def service_defs sample_defs
      chapter_defs)

subsection \<open>The claim about the creation of a chapter\<close>

lemma bit_length_0: "bit_length 0 = 0"
  by (simp add: bit_length.simps [of 0])

lemma bit_length_pos: "0 < n \<Longrightarrow> bit_length n = Suc (bit_length (n div 2))"
  by (simp add: bit_length.simps [of n])

lemma bit_length_bounds: "0 < n \<Longrightarrow> 2 ^ (bit_length n - 1) \<le> n \<and> n < 2 ^ bit_length n"
proof (induction n rule: bit_length.induct)
  case (1 n)
  have bl: "bit_length n = Suc (bit_length (n div 2))"
    using "1.prems" by (rule bit_length_pos)
  show ?case
  proof (cases "n div 2 = 0")
    case True
    with "1.prems" have "n = 1" by (simp add: div_eq_0_iff)
    then show ?thesis using bl True by (simp add: bit_length_0)
  next
    case False
    then have pos: "0 < n div 2" by simp
    from "1.IH" [OF _ pos] "1.prems"
    have ih: "2 ^ (bit_length (n div 2) - 1) \<le> n div 2" "n div 2 < 2 ^ bit_length (n div 2)"
      by simp_all
    have "0 < bit_length (n div 2)"
      using pos by (simp add: bit_length_pos)
    then obtain k where k: "bit_length (n div 2) = Suc k"
      by (cases "bit_length (n div 2)") auto
    have "2 * 2 ^ k \<le> n" using ih(1) k by simp
    moreover have "n < 2 * 2 ^ Suc k" using ih(2) k by simp
    ultimately show ?thesis by (simp add: bl k)
  qed
qed

text \<open>Rounding never goes below a power of two that the number has reached.\<close>

lemma round_to_53_bits_ge:
  assumes n: "(2::nat) ^ m \<le> n"
  shows "2 ^ m \<le> round_to_53_bits n"
proof -
  have pos: "0 < n"
    using n by (metis less_le_trans zero_less_numeral zero_less_power)
  define b where "b = bit_length n"
  define e where "e = b - 53"
  define q where "q = n div 2 ^ e"
  from bit_length_bounds [OF pos] have lo: "2 ^ (b - 1) \<le> n" and hi: "n < 2 ^ b"
    by (simp_all add: b_def)
  from n hi have "(2::nat) ^ m < 2 ^ b" by (rule le_less_trans)
  then have mb: "m < b" by simp
  have eb: "e \<le> b - 1" by (simp add: e_def)
  have split: "(2::nat) ^ (b - 1) = 2 ^ (b - 1 - e) * 2 ^ e"
    using eb by (simp flip: power_add)
  with lo have "2 ^ (b - 1 - e) * 2 ^ e \<le> n" by simp
  then have "2 ^ (b - 1 - e) \<le> q"
    unfolding q_def by (simp add: less_eq_div_iff_mult_less_eq)
  then have "2 ^ (b - 1 - e) * 2 ^ e \<le> q * 2 ^ e"
    by simp
  then have "(2::nat) ^ (b - 1) \<le> q * 2 ^ e"
    by (simp only: split)
  moreover have "(2::nat) ^ m \<le> 2 ^ (b - 1)"
    using mb by (intro power_increasing) auto
  ultimately have low: "2 ^ m \<le> q * 2 ^ e" by (rule order_trans [rotated])
  have "q * 2 ^ e \<le> (q + 1) * 2 ^ e" by simp
  with low have up: "2 ^ m \<le> (q + 1) * 2 ^ e" by (rule order_trans)
  have "round_to_53_bits n = q * 2 ^ e \<or> round_to_53_bits n = (q + 1) * 2 ^ e"
    unfolding round_to_53_bits_def Let_def q_def e_def b_def by presburger
  with low up show ?thesis by auto
qed

lemma Number_value_overflow: "2 ^ 1024 \<le> n \<Longrightarrow> Number_value n = PosInfinity"
  unfolding Number_value_def using round_to_53_bits_ge [of 1024 n] by (simp only: if_True)

lemma round_to_53_bits_small:
  assumes "n < 2 ^ 53"
  shows "round_to_53_bits n = n"
proof (cases "n = 0")
  case True
  then show ?thesis by (simp add: round_to_53_bits_def bit_length_0)
next
  case False
  then have pos: "0 < n" by simp
  from bit_length_bounds [OF pos] have "2 ^ (bit_length n - 1) \<le> n" by simp
  from this assms have "(2::nat) ^ (bit_length n - 1) < 2 ^ 53" by (rule le_less_trans)
  then have "bit_length n - 1 < 53" by (rule power_less_imp_less_exp [rotated]) simp
  then have "bit_length n - 53 = 0" by simp
  then show ?thesis by (simp add: round_to_53_bits_def)
qed

lemma Number_value_small: "n < 2 ^ 53 \<Longrightarrow> Number_value n = Finite (int n)"
proof -
  assume a: "n < 2 ^ 53"
  have "(2::nat) ^ 53 \<le> 2 ^ 1024" by (intro power_increasing) auto
  from a this have "n < 2 ^ 1024" by (rule less_le_trans)
  then show ?thesis
    unfolding Number_value_def round_to_53_bits_small [OF a]
    by (simp only: not_le [symmetric] if_False)
qed

lemma digits_value_zeros:
  "foldl (\<lambda>n c. 10 * n + digit_value c) a (replicate k (CHR ''0'')) = a * 10 ^ k"
  by (induction k arbitrary: a) (simp_all add: digit_value_def)

lemma digits_value_one_zeros: "digits_value (CHR ''1'' # replicate k (CHR ''0'')) = 10 ^ k"
proof -
  have "digits_value (CHR ''1'' # replicate k (CHR ''0''))
      = foldl (\<lambda>n c. 10 * n + digit_value c) (digit_value (CHR ''1'')) (replicate k (CHR ''0''))"
    by (simp add: digits_value_def)
  also have "\<dots> = digit_value (CHR ''1'') * 10 ^ k"
    by (rule digits_value_zeros)
  also have "digit_value (CHR ''1'') = 1"
    by (simp add: digit_value_def)
  finally show ?thesis by simp
qed

lemma power_10_309: "(2::nat) ^ 1024 \<le> 10 ^ 309"
proof -
  have "(2::nat) ^ 1024 \<le> 2 ^ 1027" by (intro power_increasing) auto
  also have "\<dots> = (2 ^ 10) ^ 102 * 2 ^ 7" by (simp flip: power_mult power_add)
  also have "\<dots> \<le> (10 ^ 3 * 2) ^ 102 * 2 ^ 7" by (intro mult_right_mono power_mono) auto
  also have "\<dots> = 10 ^ 306 * 2 ^ 109" by (simp add: power_mult_distrib flip: power_mult power_add)
  finally have "(2::nat) ^ 1024 \<le> 10 ^ 306 * 2 ^ 109" .
  then show ?thesis by simp
qed

text \<open>The number written with a one and 309 zeros is read as \<^verbatim>\<open>Infinity\<close>.\<close>

lemma parseInt_huge: "parseInt (CHR ''1'' # replicate 309 (CHR ''0'')) = Some PosInfinity"
  unfolding parseInt_def Let_def
  by (simp add: StrWhiteSpaceChar_def is_digit_def digits_value_one_zeros
      Number_value_overflow power_10_309)

lemma parseInt_3: "parseInt ''3'' = Some (Finite 3)"
  unfolding parseInt_def Let_def
  by (simp add: StrWhiteSpaceChar_def is_digit_def digits_value_def digit_value_def
      Number_value_small)

lemma replace_html_json:
  "list_all is_digit key \<Longrightarrow> replace ''.html'' ''.json'' (key @ ''.html'') = key @ ''.json''"
proof (induction key)
  case Nil
  then show ?case by simp
next
  case (Cons c cs)
  then have "c \<noteq> CHR ''.''" by (auto simp: is_digit_def)
  with Cons show ?case by simp
qed

lemma fileNameRegex_test_key:
  "fileNameRegex_test (key @ ''.html'') \<Longrightarrow> list_all is_digit key"
  by (simp add: fileNameRegex_test_def)

text \<open>What the handler has checked and done when it answers with the redirection.\<close>

lemma createChapter_accepted:
  assumes "createChapter rt race fs story_folder_name body = (Redirect url, effects)"
  shows "\<exists>numChapterNumber.
      parseInt (form_chapter_number body) = Some numChapterNumber
    \<and> \<not> not_positive numChapterNumber
    \<and> fileNameRegex_test (form_original_file_name body)
    \<and> effects =
        [Made_Directory (path_join rt [dirname rt, story_folder_name]),
         Written_File (path_join rt [dirname rt, story_folder_name, form_original_file_name body])
           (form_content body),
         Made_Directory (path_join rt [dirname rt, ''data'', ''chapters'', story_folder_name]),
         Written_File
           (path_join rt [path_join rt [dirname rt, ''data'', ''chapters'', story_folder_name],
              replace ''.html'' ''.json'' (form_original_file_name body)])
           (JSON_stringify (stringify_chapter rt)
              (new_chapterMetadata rt story_folder_name (form_title body) numChapterNumber
                 (form_original_file_name body)))]"
  using assms
  unfolding createChapter_def Let_def await_read_def await_mkdir_def await_writeFile_def
  by (auto split: sum.splits option.splits if_splits prod.splits)

text \<open>
  What is read back after a creation. The chapter key is the file name without
  \<^verbatim>\<open>.html\<close>; \<^verbatim>\<open>path.join\<close> is taken to give the same path for the metadata file
  whether the directory is joined first (the handler) or all at once
  (\<^verbatim>\<open>getChapterDetails\<close>); the platform is taken to parse the text it has written for
  the record back into it. Then in every store in which the metadata file holds the text
  written, \<^verbatim>\<open>getChapterDetails\<close> returns the record as it was serialized: the record
  written, but with \<^verbatim>\<open>null\<close> for a chapter number that is not finite.
\<close>

lemma createChapter_read_back:
  assumes created: "createChapter rt race fs story_folder_name body = (Redirect url, effects)"
    and key: "form_original_file_name body = key @ ''.html''"
    and joined: "path_join rt [path_join rt [dirname rt, ''data'', ''chapters'', story_folder_name],
          key @ ''.json'']
        = path_join rt [CHAPTERS_METADATA_DIR rt, story_folder_name, key @ ''.json'']"
  shows "\<exists>numChapterNumber chapterMetadata text.
      parseInt (form_chapter_number body) = Some numChapterNumber
    \<and> chapterMetadata = new_chapterMetadata rt story_folder_name (form_title body)
          numChapterNumber (form_original_file_name body)
    \<and> text = stringify_chapter rt (serialized chapterMetadata)
    \<and> last effects
        = Written_File (path_join rt [CHAPTERS_METADATA_DIR rt, story_folder_name, key @ ''.json''])
            text
    \<and> (\<forall>fs'. readFile fs'
                (path_join rt [CHAPTERS_METADATA_DIR rt, story_folder_name, key @ ''.json''])
              = Inr text
            \<and> parse_chapter rt text = Some (serialized chapterMetadata)
          \<longrightarrow> getChapterDetails rt fs' story_folder_name key
              = Inr (Some (serialized chapterMetadata)))"
proof -
  from createChapter_accepted [OF created]
  obtain numChapterNumber where num: "parseInt (form_chapter_number body) = Some numChapterNumber"
    and regex: "fileNameRegex_test (form_original_file_name body)"
    and effects: "effects =
        [Made_Directory (path_join rt [dirname rt, story_folder_name]),
         Written_File (path_join rt [dirname rt, story_folder_name, form_original_file_name body])
           (form_content body),
         Made_Directory (path_join rt [dirname rt, ''data'', ''chapters'', story_folder_name]),
         Written_File
           (path_join rt [path_join rt [dirname rt, ''data'', ''chapters'', story_folder_name],
              replace ''.html'' ''.json'' (form_original_file_name body)])
           (JSON_stringify (stringify_chapter rt)
              (new_chapterMetadata rt story_folder_name (form_title body) numChapterNumber
                 (form_original_file_name body)))]"
    by blast
  have "list_all is_digit key"
    using regex key by (simp add: fileNameRegex_test_key)
  then have json_name: "replace ''.html'' ''.json'' (form_original_file_name body) = key @ ''.json''"
    unfolding key by (rule replace_html_json)
  let ?md = "new_chapterMetadata rt story_folder_name (form_title body) numChapterNumber
      (form_original_file_name body)"
  let ?p = "path_join rt [CHAPTERS_METADATA_DIR rt, story_folder_name, key @ ''.json'']"
  have final: "last effects = Written_File ?p (stringify_chapter rt (serialized ?md))"
    unfolding effects json_name joined by (simp add: JSON_stringify_def)
  have reads: "getChapterDetails rt fs' story_folder_name key = Inr (Some (serialized ?md))"
    if "readFile fs' ?p = Inr (stringify_chapter rt (serialized ?md))"
      and "parse_chapter rt (stringify_chapter rt (serialized ?md)) = Some (serialized ?md)"
    for fs'
    using that by (simp add: getChapterDetails_def await_def try_catch_def JSON_parse_def Let_def)
  from num final reads show ?thesis by blast
qed

text \<open>A record with a finite chapter number is serialized as it is.\<close>

lemma serialized_finite:
  "serialized (new_chapterMetadata rt story_folder_name t (Finite n) name)
     = new_chapterMetadata rt story_folder_name t (Finite n) name"
  by (simp add: serialized_def new_chapterMetadata_def)

lemma serialized_infinite:
  "chapter_number (serialized (new_chapterMetadata rt story_folder_name t PosInfinity name)) = Null
   \<and> chapter_number (new_chapterMetadata rt story_folder_name t PosInfinity name) = Number PosInfinity"
  by (simp add: serialized_def new_chapterMetadata_def)

text \<open>
  So a record with a finite chapter number is read back as it was written, and a record
  whose chapter number is \<^verbatim>\<open>Infinity\<close> is read back with \<^verbatim>\<open>null\<close>, on every platform
  and in every store that keeps the text.
\<close>

lemma createChapter_round_trip_finite:
  assumes created: "createChapter rt race fs story_folder_name body = (Redirect url, effects)"
    and key: "form_original_file_name body = key @ ''.html''"
    and joined: "path_join rt [path_join rt [dirname rt, ''data'', ''chapters'', story_folder_name],
          key @ ''.json'']
        = path_join rt [CHAPTERS_METADATA_DIR rt, story_folder_name, key @ ''.json'']"
    and finite: "parseInt (form_chapter_number body) = Some (Finite n)"
    and written: "chapterMetadata = new_chapterMetadata rt story_folder_name (form_title body)
          (Finite n) (form_original_file_name body)"
    and stored: "readFile fs'
          (path_join rt [CHAPTERS_METADATA_DIR rt, story_folder_name, key @ ''.json''])
        = Inr (stringify_chapter rt chapterMetadata)"
    and codec: "parse_chapter rt (stringify_chapter rt chapterMetadata) = Some chapterMetadata"
  shows "getChapterDetails rt fs' story_folder_name key = Inr (Some chapterMetadata)"
  using createChapter_read_back [OF created key joined] finite stored codec
  unfolding written by (auto simp: serialized_finite)

lemma createChapter_infinite_not_read_back:
  assumes created: "createChapter rt race fs story_folder_name body = (Redirect url, effects)"
    and key: "form_original_file_name body = key @ ''.html''"
    and joined: "path_join rt [path_join rt [dirname rt, ''data'', ''chapters'', story_folder_name],
          key @ ''.json'']
        = path_join rt [CHAPTERS_METADATA_DIR rt, story_folder_name, key @ ''.json'']"
    and infinite: "parseInt (form_chapter_number body) = Some PosInfinity"
    and written: "chapterMetadata = new_chapterMetadata rt story_folder_name (form_title body)
          PosInfinity (form_original_file_name body)"
    and stored: "readFile fs'
          (path_join rt [CHAPTERS_METADATA_DIR rt, story_folder_name, key @ ''.json''])
        = Inr (stringify_chapter rt (serialized chapterMetadata))"
    and codec: "parse_chapter rt (stringify_chapter rt (serialized chapterMetadata))
        = Some (serialized chapterMetadata)"
  shows "\<exists>found. getChapterDetails rt fs' story_folder_name key = Inr (Some found)
    \<and> chapter_number found = Null
    \<and> chapter_number chapterMetadata = Number PosInfinity"
  using createChapter_read_back [OF created key joined] infinite stored codec
  unfolding written by (auto simp: serialized_infinite)

lemmas create_defs = createChapter_def await_read_def await_mkdir_def await_writeFile_def
  new_chapterMetadata_def JSON_stringify_def serialized_def fileNameRegex_test_def
  replace_backslashes_def is_digit_def sample_stringify_def

text \<open>Chapter 3 of the sample store is created and read back as it was written.\<close>

lemma createChapter_three:
  "createChapter sample_runtime 0 sample_fs ''tale'' form_three =
     (Redirect ''/admin/stories/tale/chapters'',
      [Made_Directory ''/srv/tale'',
       Written_File ''/srv/tale/0003.html'' ''<p>Thrice</p>'',
       Made_Directory ''/srv/data/chapters/tale'',
       Written_File ''/srv/data/chapters/tale/0003.json'' text_three])
   \<and> getChapterDetails sample_runtime
        (holding sample_fs ''/srv/data/chapters/tale/0003.json'' text_three) ''tale'' ''0003''
      = Inr (Some chapter_three)"
  by (simp add: create_defs form_three_def parseInt_3 holding_def service_defs sample_defs
      chapter_defs tale_def saga_def saga_again_def)

text \<open>
  C7. The record written is not always the record read back. The form \<open>form_nine\<close>
  gives the chapter number with 310 digits; \<^verbatim>\<open>parseInt\<close> reads it as \<^verbatim>\<open>Infinity\<close>,
  which is neither \<^verbatim>\<open>NaN\<close> nor \<^verbatim>\<open><= 0\<close>, so that the form is accepted; the record
  written has the chapter number \<^verbatim>\<open>Infinity\<close>, its text has \<^verbatim>\<open>null\<close>, and the record
  that \<^verbatim>\<open>getChapterDetails\<close> returns from the file has the chapter number \<^verbatim>\<open>null\<close>.
\<close>

theorem createChapter_infinite_number_read_back:
  "parseInt (form_chapter_number form_nine) = Some PosInfinity
   \<and> createChapter sample_runtime 0 sample_fs ''tale'' form_nine =
       (Redirect ''/admin/stories/tale/chapters'',
        [Made_Directory ''/srv/tale'',
         Written_File ''/srv/tale/0009.html'' ''<p>Ninth</p>'',
         Made_Directory ''/srv/data/chapters/tale'',
         Written_File ''/srv/data/chapters/tale/0009.json'' text_nine_null])
   \<and> new_chapterMetadata sample_runtime ''tale'' (form_title form_nine) PosInfinity
         (form_original_file_name form_nine) = chapter_nine
   \<and> JSON_stringify (stringify_chapter sample_runtime) chapter_nine = text_nine_null
   \<and> getChapterDetails sample_runtime
         (holding sample_fs ''/srv/data/chapters/tale/0009.json'' text_nine_null) ''tale'' ''0009''
       = Inr (Some chapter_nine_null)
   \<and> chapter_number chapter_nine = Number PosInfinity
   \<and> chapter_number chapter_nine_null = Null"
  by (simp add: create_defs form_nine_def parseInt_huge holding_def service_defs sample_defs
      chapter_defs tale_def saga_def saga_again_def)

end
